theory Spec2Isabelle
  imports Complex_Main
begin

section \<open>JavaScript numbers\<close>

text \<open>
  The schematic engine of PromptCAD (src/services/techDrawEngine.ts) is embedded as pure
  functions on an explicit engine state. Its arithmetic is that of JavaScript: IEEE 754
  binary64 with round to nearest, ties to even, overflow to an infinity and \<open>NaN\<close>.

  A value of \<open>jsval\<close> is what a numeric expression or a property read of the engine can
  yield: a finite double \<open>Num r\<close>, given by the real number \<open>r\<close> it denotes, an infinity,
  \<open>NaN\<close>, or \<open>undefined\<close> (a property that does not exist). The two zeros are one value
  \<open>Num 0\<close>: the engine never divides by a variable and passes every number through
  \<open>String\<close>, which prints both as \<open>0\<close>, so their sign cannot be observed.
\<close>

datatype jsval = Num real | PosInf | NegInf | NaN | Undefined

text \<open>
  Rounding of an exact real result to binary64. \<open>quantum x\<close> is the spacing of the
  doubles around \<open>x\<close>: \<open>2\<close> to the power \<open>e - 52\<close> for the binary exponent \<open>e\<close> of \<open>x\<close>,
  and \<open>2\<close> to the power \<open>-1074\<close> in the subnormal range. \<open>round_even\<close> is the nearest
  integer, the even one at a tie. A result of magnitude \<open>2 ^ 1024\<close> overflows.
\<close>

definition round_even :: "real \<Rightarrow> int" where
  "round_even y =
     (let f = \<lfloor>y\<rfloor>; d = y - of_int f
      in if d < 1 / 2 then f else if 1 / 2 < d then f + 1 else if even f then f else f + 1)"

definition quantum :: "real \<Rightarrow> real" where
  "quantum x = 2 powi (max \<lfloor>log 2 \<bar>x\<bar>\<rfloor> (- 1022) - 52)"

definition fl :: "real \<Rightarrow> jsval" where
  "fl x =
     (if x = 0 then Num 0
      else let r = of_int (round_even (x / quantum x)) * quantum x
           in if \<bar>r\<bar> < 2 ^ 1024 then Num r else if 0 < x then PosInf else NegInf)"

text \<open>
  The operators the engine uses. An operand that is \<open>undefined\<close> converts to \<open>NaN\<close>,
  which absorbs. The only divisors in the source are the literals \<open>2\<close> and \<open>180\<close>.
\<close>

fun js_neg :: "jsval \<Rightarrow> jsval" where
  "js_neg (Num a) = Num (- a)"
| "js_neg PosInf = NegInf"
| "js_neg NegInf = PosInf"
| "js_neg _ = NaN"

fun js_add :: "jsval \<Rightarrow> jsval \<Rightarrow> jsval" where
  "js_add (Num a) (Num b) = fl (a + b)"
| "js_add (Num a) PosInf = PosInf"
| "js_add (Num a) NegInf = NegInf"
| "js_add PosInf (Num b) = PosInf"
| "js_add NegInf (Num b) = NegInf"
| "js_add PosInf PosInf = PosInf"
| "js_add NegInf NegInf = NegInf"
| "js_add _ _ = NaN"

definition js_sub :: "jsval \<Rightarrow> jsval \<Rightarrow> jsval" where
  "js_sub a b = js_add a (js_neg b)"

fun js_mul :: "jsval \<Rightarrow> jsval \<Rightarrow> jsval" where
  "js_mul (Num a) (Num b) = fl (a * b)"
| "js_mul (Num a) PosInf = (if a = 0 then NaN else if 0 < a then PosInf else NegInf)"
| "js_mul (Num a) NegInf = (if a = 0 then NaN else if 0 < a then NegInf else PosInf)"
| "js_mul PosInf (Num b) = (if b = 0 then NaN else if 0 < b then PosInf else NegInf)"
| "js_mul NegInf (Num b) = (if b = 0 then NaN else if 0 < b then NegInf else PosInf)"
| "js_mul PosInf PosInf = PosInf"
| "js_mul NegInf NegInf = PosInf"
| "js_mul PosInf NegInf = NegInf"
| "js_mul NegInf PosInf = NegInf"
| "js_mul _ _ = NaN"

fun js_half :: "jsval \<Rightarrow> jsval" where
  "js_half (Num a) = fl (a / 2)"
| "js_half PosInf = PosInf"
| "js_half NegInf = NegInf"
| "js_half _ = NaN"

fun js_div180 :: "jsval \<Rightarrow> jsval" where
  "js_div180 (Num a) = fl (a / 180)"
| "js_div180 PosInf = PosInf"
| "js_div180 NegInf = NegInf"
| "js_div180 _ = NaN"

fun Math_abs :: "jsval \<Rightarrow> jsval" where
  "Math_abs (Num a) = Num \<bar>a\<bar>"
| "Math_abs PosInf = PosInf"
| "Math_abs NegInf = PosInf"
| "Math_abs _ = NaN"

fun js_gt :: "jsval \<Rightarrow> jsval \<Rightarrow> bool" where
  "js_gt (Num a) (Num b) = (a > b)"
| "js_gt PosInf (Num b) = True"
| "js_gt PosInf NegInf = True"
| "js_gt (Num a) NegInf = True"
| "js_gt _ _ = False"

text \<open>\<open>Math.PI\<close> is the double nearest to \<open>\<pi>\<close>, \<open>3.141592653589793\<close>.\<close>

definition Math_PI :: real where
  "Math_PI = 884279719003555 / 2 ^ 48"

text \<open>
  \<open>Math.cos\<close> and \<open>Math.sin\<close> are implementation-approximated in ECMAScript: the
  standard fixes their values at zero, at the infinities and at \<open>NaN\<close> and leaves the
  rest to the platform. The platform's two approximations are therefore a parameter of
  the model, a record \<open>libm\<close>, which \<open>add\<close> receives.
\<close>

record libm =
  libm_cos :: "real \<Rightarrow> real"
  libm_sin :: "real \<Rightarrow> real"

fun Math_cos :: "libm \<Rightarrow> jsval \<Rightarrow> jsval" where
  "Math_cos M (Num a) = (if a = 0 then Num 1 else Num (libm_cos M a))"
| "Math_cos M _ = NaN"

fun Math_sin :: "libm \<Rightarrow> jsval \<Rightarrow> jsval" where
  "Math_sin M (Num a) = (if a = 0 then Num 0 else Num (libm_sin M a))"
| "Math_sin M _ = NaN"

section \<open>Data model (src/types.ts)\<close>

datatype ComponentType =
    Resistor | Capacitor | Inductor | Diode | Led
  | SourceV | SourceI | Gnd
  | Opamp
  | TransistorNpn | TransistorPnp
  | MosfetN | MosfetP
  | GateAnd | GateOr | GateNot | GateNand | GateNor | GateXor
  | ArduinoUno | StepperMotor | DriverStepper | Antenna | Ic555

text \<open>
  Record fields carry a prefix, because \<open>x\<close>, \<open>y\<close>, \<open>id\<close> and \<open>rotate\<close> would clash with
  variables and library constants. An optional field of \<open>ComponentConfig\<close> is an option;
  a field of type \<open>number\<close> holds a \<open>jsval\<close>.
\<close>

record ComponentConfig =
  cfg_x :: jsval
  cfg_y :: jsval
  cfg_rotate :: "jsval option"
  cfg_label :: "string option"

record PinPosition =
  pin_x :: jsval
  pin_y :: jsval

record ComponentInstance =
  inst_id :: string
  inst_type :: ComponentType
  inst_x :: jsval
  inst_y :: jsval
  inst_rotation :: jsval
  inst_pins :: "(string \<times> PinPosition) list"

section \<open>Drawing primitives\<close>

datatype path_cmd = MoveTo jsval jsval | LineTo jsval jsval

text \<open>
  An attribute value is what \<open>createEl\<close> passes to \<open>setAttribute\<close>: a string literal, a
  value converted by \<open>String(v)\<close>, or one of the three template strings of the engine, kept
  structured: the wire's \<open>d\<close> (a list of \<open>M\<close>/\<open>L\<close> commands), the group's
  \<open>translate(x,y) rotate(r)\<close> and the label's \<open>rotate(r)\<close>.
\<close>

datatype attr_val =
    Str string
  | Val jsval
  | PathData "path_cmd list"
  | TranslateRotate jsval jsval jsval
  | RotateBy jsval

datatype svg_node =
    Element string "(string \<times> attr_val) list" "svg_node list"
  | TextNode string

definition createEl :: "string \<Rightarrow> (string \<times> attr_val) list \<Rightarrow> svg_node" where
  "createEl tag attrs = Element tag attrs []"

fun appendChild :: "svg_node \<Rightarrow> svg_node \<Rightarrow> svg_node" where
  "appendChild (Element tag attrs cs) c = Element tag attrs (cs @ [c])"
| "appendChild (TextNode s) c = TextNode s"

fun appendChildren :: "svg_node \<Rightarrow> svg_node list \<Rightarrow> svg_node" where
  "appendChildren g [] = g"
| "appendChildren g (c # cs) = appendChildren (appendChild g c) cs"

fun children :: "svg_node \<Rightarrow> svg_node list" where
  "children (Element tag attrs cs) = cs"
| "children (TextNode s) = []"

fun tagName :: "svg_node \<Rightarrow> string" where
  "tagName (Element tag attrs cs) = tag"
| "tagName (TextNode s) = []"

section \<open>Symbol library (drawSymbol)\<close>

text \<open>
  \<open>drawSymbol\<close> appends the symbol's primitives to the group it is given and returns the
  relative pin offsets. The two halves of every \<open>case\<close> are listed separately:
  \<open>symbolGeometry\<close> holds the appended elements in source order, \<open>symbolPins\<close> the returned
  object with its keys in source order. The \<open>default\<close> branch is the last equation of each.
  Every number of the library is a small integer literal, hence a double.
\<close>

fun symbolGeometry :: "ComponentType \<Rightarrow> svg_node list" where
  "symbolGeometry Resistor =
    [Element ''path''
       [(''d'', Str ''M -30 0 L -20 0 L -15 -10 L -5 10 L 5 -10 L 15 10 L 20 0 L 30 0''),
        (''class'', Str ''stroke-slate-800 stroke-[2] fill-none stroke-linecap-round stroke-linejoin-round'')] []]"
| "symbolGeometry Capacitor =
    [Element ''line''
       [(''x1'', Val (Num (-5))), (''y1'', Val (Num (-15))), (''x2'', Val (Num (-5))),
        (''y2'', Val (Num 15)), (''class'', Str ''stroke-slate-800 stroke-[3]'')] [],
     Element ''line''
       [(''x1'', Val (Num 5)), (''y1'', Val (Num (-15))), (''x2'', Val (Num 5)),
        (''y2'', Val (Num 15)), (''class'', Str ''stroke-slate-800 stroke-[3]'')] [],
     Element ''line''
       [(''x1'', Val (Num (-30))), (''y1'', Val (Num 0)), (''x2'', Val (Num (-5))),
        (''y2'', Val (Num 0)), (''class'', Str ''stroke-slate-800 stroke-[2]'')] [],
     Element ''line''
       [(''x1'', Val (Num 5)), (''y1'', Val (Num 0)), (''x2'', Val (Num 30)),
        (''y2'', Val (Num 0)), (''class'', Str ''stroke-slate-800 stroke-[2]'')] []]"
| "symbolGeometry Inductor =
    [Element ''path''
       [(''d'', Str ''M -30 0 L -20 0 Q -15 -10 -10 0 Q -5 -10 0 0 Q 5 -10 10 0 Q 15 -10 20 0 L 30 0''),
        (''class'', Str ''stroke-slate-800 stroke-[2] fill-none'')] []]"
| "symbolGeometry Diode =
    [Element ''path''
       [(''d'', Str ''M -10 -10 L -10 10 L 10 0 Z''),
        (''class'', Str ''fill-slate-800 stroke-none'')] [],
     Element ''line''
       [(''x1'', Val (Num 10)), (''y1'', Val (Num (-10))), (''x2'', Val (Num 10)),
        (''y2'', Val (Num 10)), (''class'', Str ''stroke-slate-800 stroke-[3]'')] [],
     Element ''line''
       [(''x1'', Val (Num (-30))), (''y1'', Val (Num 0)), (''x2'', Val (Num (-10))),
        (''y2'', Val (Num 0)), (''class'', Str ''stroke-slate-800 stroke-[2]'')] [],
     Element ''line''
       [(''x1'', Val (Num 10)), (''y1'', Val (Num 0)), (''x2'', Val (Num 30)),
        (''y2'', Val (Num 0)), (''class'', Str ''stroke-slate-800 stroke-[2]'')] []]"
| "symbolGeometry Led =
    [Element ''path''
       [(''d'', Str ''M -10 -10 L -10 10 L 10 0 Z''),
        (''class'', Str ''fill-slate-800 stroke-none'')] [],
     Element ''line''
       [(''x1'', Val (Num 10)), (''y1'', Val (Num (-10))), (''x2'', Val (Num 10)),
        (''y2'', Val (Num 10)), (''class'', Str ''stroke-slate-800 stroke-[3]'')] [],
     Element ''line''
       [(''x1'', Val (Num (-30))), (''y1'', Val (Num 0)), (''x2'', Val (Num (-10))),
        (''y2'', Val (Num 0)), (''class'', Str ''stroke-slate-800 stroke-[2]'')] [],
     Element ''line''
       [(''x1'', Val (Num 10)), (''y1'', Val (Num 0)), (''x2'', Val (Num 30)),
        (''y2'', Val (Num 0)), (''class'', Str ''stroke-slate-800 stroke-[2]'')] [],
     Element ''path''
       [(''d'', Str ''M -5 -15 L 5 -25 M 5 -15 L 15 -25''),
        (''class'', Str ''stroke-slate-800 stroke-[1.5] fill-none'')] [],
     Element ''path''
       [(''d'', Str ''M 2 -25 L 5 -25 L 5 -22 M 12 -25 L 15 -25 L 15 -22''),
        (''class'', Str ''stroke-slate-800 stroke-[1.5] fill-none'')] []]"
| "symbolGeometry SourceV =
    [Element ''circle''
       [(''cx'', Val (Num 0)), (''cy'', Val (Num 0)), (''r'', Val (Num 20)),
        (''class'', Str ''stroke-slate-800 stroke-[2] fill-none'')] [],
     Element ''text''
       [(''x'', Val (Num (-5))), (''y'', Val (Num (-5))),
        (''style'', Str ''font-size: 16px; font-family: sans-serif;'')] [TextNode ''+''],
     Element ''text''
       [(''x'', Val (Num (-3))), (''y'', Val (Num 15)),
        (''style'', Str ''font-size: 16px; font-family: sans-serif;'')] [TextNode ''-''],
     Element ''line''
       [(''x1'', Val (Num 0)), (''y1'', Val (Num (-30))), (''x2'', Val (Num 0)),
        (''y2'', Val (Num (-20))), (''class'', Str ''stroke-slate-800 stroke-[2]'')] [],
     Element ''line''
       [(''x1'', Val (Num 0)), (''y1'', Val (Num 20)), (''x2'', Val (Num 0)),
        (''y2'', Val (Num 30)), (''class'', Str ''stroke-slate-800 stroke-[2]'')] []]"
| "symbolGeometry SourceI =
    [Element ''circle''
       [(''cx'', Val (Num 0)), (''cy'', Val (Num 0)), (''r'', Val (Num 20)),
        (''class'', Str ''stroke-slate-800 stroke-[2] fill-none'')] [],
     Element ''path''
       [(''d'', Str ''M 0 -10 L 0 10 L 5 5 M 0 10 L -5 5''),
        (''class'', Str ''stroke-slate-800 stroke-[2] fill-none'')] [],
     Element ''line''
       [(''x1'', Val (Num 0)), (''y1'', Val (Num (-30))), (''x2'', Val (Num 0)),
        (''y2'', Val (Num (-20))), (''class'', Str ''stroke-slate-800 stroke-[2]'')] [],
     Element ''line''
       [(''x1'', Val (Num 0)), (''y1'', Val (Num 20)), (''x2'', Val (Num 0)),
        (''y2'', Val (Num 30)), (''class'', Str ''stroke-slate-800 stroke-[2]'')] []]"
| "symbolGeometry Gnd =
    [Element ''path''
       [(''d'', Str ''M 0 -10 L 0 0 M -15 0 L 15 0 M -10 5 L 10 5 M -5 10 L 5 10''),
        (''class'', Str ''stroke-slate-800 stroke-[2] fill-none'')] []]"
| "symbolGeometry Opamp =
    [Element ''path''
       [(''d'', Str ''M -30 -35 L -30 35 L 35 0 Z''),
        (''class'', Str ''stroke-slate-800 stroke-[2] fill-white'')] [],
     Element ''text''
       [(''x'', Val (Num (-25))), (''y'', Val (Num (-10))),
        (''style'', Str ''font-size: 14px; font-family: sans-serif;'')] [TextNode ''-''],
     Element ''text''
       [(''x'', Val (Num (-25))), (''y'', Val (Num 20)),
        (''style'', Str ''font-size: 14px; font-family: sans-serif;'')] [TextNode ''+''],
     Element ''line''
       [(''x1'', Val (Num (-50))), (''y1'', Val (Num (-15))), (''x2'', Val (Num (-30))),
        (''y2'', Val (Num (-15))), (''class'', Str ''stroke-slate-800 stroke-[2]'')] [],
     Element ''line''
       [(''x1'', Val (Num (-50))), (''y1'', Val (Num 15)), (''x2'', Val (Num (-30))),
        (''y2'', Val (Num 15)), (''class'', Str ''stroke-slate-800 stroke-[2]'')] [],
     Element ''line''
       [(''x1'', Val (Num 35)), (''y1'', Val (Num 0)), (''x2'', Val (Num 55)),
        (''y2'', Val (Num 0)), (''class'', Str ''stroke-slate-800 stroke-[2]'')] []]"
| "symbolGeometry TransistorNpn =
    [Element ''circle''
       [(''cx'', Val (Num 0)), (''cy'', Val (Num 0)), (''r'', Val (Num 25)),
        (''class'', Str ''stroke-slate-800 stroke-[1.5] fill-none'')] [],
     Element ''line''
       [(''x1'', Val (Num (-15))), (''y1'', Val (Num (-15))), (''x2'', Val (Num (-15))),
        (''y2'', Val (Num 15)), (''class'', Str ''stroke-slate-800 stroke-[3]'')] [],
     Element ''line''
       [(''x1'', Val (Num (-30))), (''y1'', Val (Num 0)), (''x2'', Val (Num (-15))),
        (''y2'', Val (Num 0)), (''class'', Str ''stroke-slate-800 stroke-[2]'')] [],
     Element ''line''
       [(''x1'', Val (Num (-15))), (''y1'', Val (Num (-10))), (''x2'', Val (Num 15)),
        (''y2'', Val (Num (-25))), (''class'', Str ''stroke-slate-800 stroke-[2]'')] [],
     Element ''line''
       [(''x1'', Val (Num 15)), (''y1'', Val (Num (-25))), (''x2'', Val (Num 15)),
        (''y2'', Val (Num (-40))), (''class'', Str ''stroke-slate-800 stroke-[2]'')] [],
     Element ''line''
       [(''x1'', Val (Num (-15))), (''y1'', Val (Num 10)), (''x2'', Val (Num 15)),
        (''y2'', Val (Num 25)), (''class'', Str ''stroke-slate-800 stroke-[2]'')] [],
     Element ''line''
       [(''x1'', Val (Num 15)), (''y1'', Val (Num 25)), (''x2'', Val (Num 15)),
        (''y2'', Val (Num 40)), (''class'', Str ''stroke-slate-800 stroke-[2]'')] [],
     Element ''path''
       [(''d'', Str ''M 10 28 L 16 26 L 14 20''),
        (''class'', Str ''stroke-slate-800 stroke-[2] fill-slate-800'')] []]"
| "symbolGeometry TransistorPnp =
    [Element ''circle''
       [(''cx'', Val (Num 0)), (''cy'', Val (Num 0)), (''r'', Val (Num 25)),
        (''class'', Str ''stroke-slate-800 stroke-[1.5] fill-none'')] [],
     Element ''line''
       [(''x1'', Val (Num (-15))), (''y1'', Val (Num (-15))), (''x2'', Val (Num (-15))),
        (''y2'', Val (Num 15)), (''class'', Str ''stroke-slate-800 stroke-[3]'')] [],
     Element ''line''
       [(''x1'', Val (Num (-30))), (''y1'', Val (Num 0)), (''x2'', Val (Num (-15))),
        (''y2'', Val (Num 0)), (''class'', Str ''stroke-slate-800 stroke-[2]'')] [],
     Element ''line''
       [(''x1'', Val (Num (-15))), (''y1'', Val (Num (-10))), (''x2'', Val (Num 15)),
        (''y2'', Val (Num (-25))), (''class'', Str ''stroke-slate-800 stroke-[2]'')] [],
     Element ''line''
       [(''x1'', Val (Num 15)), (''y1'', Val (Num (-25))), (''x2'', Val (Num 15)),
        (''y2'', Val (Num (-40))), (''class'', Str ''stroke-slate-800 stroke-[2]'')] [],
     Element ''line''
       [(''x1'', Val (Num (-15))), (''y1'', Val (Num 10)), (''x2'', Val (Num 15)),
        (''y2'', Val (Num 25)), (''class'', Str ''stroke-slate-800 stroke-[2]'')] [],
     Element ''line''
       [(''x1'', Val (Num 15)), (''y1'', Val (Num 25)), (''x2'', Val (Num 15)),
        (''y2'', Val (Num 40)), (''class'', Str ''stroke-slate-800 stroke-[2]'')] [],
     Element ''path''
       [(''d'', Str ''M -5 10 L -2 16 L -10 16''),
        (''class'', Str ''stroke-slate-800 stroke-[2] fill-slate-800'')] []]"
| "symbolGeometry MosfetN =
    [Element ''circle''
       [(''cx'', Val (Num 0)), (''cy'', Val (Num 0)), (''r'', Val (Num 25)),
        (''class'', Str ''stroke-slate-800 stroke-[1.5] fill-none'')] [],
     Element ''line''
       [(''x1'', Val (Num (-15))), (''y1'', Val (Num (-15))), (''x2'', Val (Num (-15))),
        (''y2'', Val (Num 15)), (''class'', Str ''stroke-slate-800 stroke-[2]'')] [],
     Element ''line''
       [(''x1'', Val (Num (-5))), (''y1'', Val (Num (-15))), (''x2'', Val (Num (-5))),
        (''y2'', Val (Num (-5))), (''class'', Str ''stroke-slate-800 stroke-[2]'')] [],
     Element ''line''
       [(''x1'', Val (Num (-5))), (''y1'', Val (Num (-2))), (''x2'', Val (Num (-5))),
        (''y2'', Val (Num 2)), (''class'', Str ''stroke-slate-800 stroke-[2]'')] [],
     Element ''line''
       [(''x1'', Val (Num (-5))), (''y1'', Val (Num 5)), (''x2'', Val (Num (-5))),
        (''y2'', Val (Num 15)), (''class'', Str ''stroke-slate-800 stroke-[2]'')] [],
     Element ''line''
       [(''x1'', Val (Num (-30))), (''y1'', Val (Num 0)), (''x2'', Val (Num (-15))),
        (''y2'', Val (Num 0)), (''class'', Str ''stroke-slate-800 stroke-[2]'')] [],
     Element ''line''
       [(''x1'', Val (Num (-5))), (''y1'', Val (Num (-10))), (''x2'', Val (Num 15)),
        (''y2'', Val (Num (-10))), (''class'', Str ''stroke-slate-800 stroke-[2]'')] [],
     Element ''line''
       [(''x1'', Val (Num 15)), (''y1'', Val (Num (-10))), (''x2'', Val (Num 15)),
        (''y2'', Val (Num (-40))), (''class'', Str ''stroke-slate-800 stroke-[2]'')] [],
     Element ''line''
       [(''x1'', Val (Num (-5))), (''y1'', Val (Num 10)), (''x2'', Val (Num 15)),
        (''y2'', Val (Num 10)), (''class'', Str ''stroke-slate-800 stroke-[2]'')] [],
     Element ''line''
       [(''x1'', Val (Num 15)), (''y1'', Val (Num 10)), (''x2'', Val (Num 15)),
        (''y2'', Val (Num 40)), (''class'', Str ''stroke-slate-800 stroke-[2]'')] [],
     Element ''path''
       [(''d'', Str ''M -5 0 L 0 -3 L 0 3 Z''), (''class'', Str ''fill-slate-800'')] []]"
| "symbolGeometry MosfetP =
    [Element ''circle''
       [(''cx'', Val (Num 0)), (''cy'', Val (Num 0)), (''r'', Val (Num 25)),
        (''class'', Str ''stroke-slate-800 stroke-[1.5] fill-none'')] [],
     Element ''line''
       [(''x1'', Val (Num (-15))), (''y1'', Val (Num (-15))), (''x2'', Val (Num (-15))),
        (''y2'', Val (Num 15)), (''class'', Str ''stroke-slate-800 stroke-[2]'')] [],
     Element ''line''
       [(''x1'', Val (Num (-5))), (''y1'', Val (Num (-15))), (''x2'', Val (Num (-5))),
        (''y2'', Val (Num (-5))), (''class'', Str ''stroke-slate-800 stroke-[2]'')] [],
     Element ''line''
       [(''x1'', Val (Num (-5))), (''y1'', Val (Num (-2))), (''x2'', Val (Num (-5))),
        (''y2'', Val (Num 2)), (''class'', Str ''stroke-slate-800 stroke-[2]'')] [],
     Element ''line''
       [(''x1'', Val (Num (-5))), (''y1'', Val (Num 5)), (''x2'', Val (Num (-5))),
        (''y2'', Val (Num 15)), (''class'', Str ''stroke-slate-800 stroke-[2]'')] [],
     Element ''line''
       [(''x1'', Val (Num (-30))), (''y1'', Val (Num 0)), (''x2'', Val (Num (-15))),
        (''y2'', Val (Num 0)), (''class'', Str ''stroke-slate-800 stroke-[2]'')] [],
     Element ''line''
       [(''x1'', Val (Num (-5))), (''y1'', Val (Num (-10))), (''x2'', Val (Num 15)),
        (''y2'', Val (Num (-10))), (''class'', Str ''stroke-slate-800 stroke-[2]'')] [],
     Element ''line''
       [(''x1'', Val (Num 15)), (''y1'', Val (Num (-10))), (''x2'', Val (Num 15)),
        (''y2'', Val (Num (-40))), (''class'', Str ''stroke-slate-800 stroke-[2]'')] [],
     Element ''line''
       [(''x1'', Val (Num (-5))), (''y1'', Val (Num 10)), (''x2'', Val (Num 15)),
        (''y2'', Val (Num 10)), (''class'', Str ''stroke-slate-800 stroke-[2]'')] [],
     Element ''line''
       [(''x1'', Val (Num 15)), (''y1'', Val (Num 10)), (''x2'', Val (Num 15)),
        (''y2'', Val (Num 40)), (''class'', Str ''stroke-slate-800 stroke-[2]'')] [],
     Element ''path''
       [(''d'', Str ''M 0 0 L -5 -3 L -5 3 Z''), (''class'', Str ''fill-slate-800'')] []]"
| "symbolGeometry GateAnd =
    [Element ''path''
       [(''d'', Str ''M -30 -25 L -10 -25 A 25 25 0 0 1 -10 25 L -30 25 Z''),
        (''class'', Str ''stroke-slate-800 stroke-[2] fill-white'')] [],
     Element ''line''
       [(''x1'', Val (Num (-45))), (''y1'', Val (Num (-10))), (''x2'', Val (Num (-30))),
        (''y2'', Val (Num (-10))), (''class'', Str ''stroke-slate-800 stroke-[2]'')] [],
     Element ''line''
       [(''x1'', Val (Num (-45))), (''y1'', Val (Num 10)), (''x2'', Val (Num (-30))),
        (''y2'', Val (Num 10)), (''class'', Str ''stroke-slate-800 stroke-[2]'')] [],
     Element ''line''
       [(''x1'', Val (Num 15)), (''y1'', Val (Num 0)), (''x2'', Val (Num 30)),
        (''y2'', Val (Num 0)), (''class'', Str ''stroke-slate-800 stroke-[2]'')] []]"
| "symbolGeometry GateNand =
    [Element ''path''
       [(''d'', Str ''M -30 -25 L -10 -25 A 25 25 0 0 1 -10 25 L -30 25 Z''),
        (''class'', Str ''stroke-slate-800 stroke-[2] fill-white'')] [],
     Element ''circle''
       [(''cx'', Val (Num 20)), (''cy'', Val (Num 0)), (''r'', Val (Num 5)),
        (''class'', Str ''stroke-slate-800 stroke-[2] fill-white'')] [],
     Element ''line''
       [(''x1'', Val (Num (-45))), (''y1'', Val (Num (-10))), (''x2'', Val (Num (-30))),
        (''y2'', Val (Num (-10))), (''class'', Str ''stroke-slate-800 stroke-[2]'')] [],
     Element ''line''
       [(''x1'', Val (Num (-45))), (''y1'', Val (Num 10)), (''x2'', Val (Num (-30))),
        (''y2'', Val (Num 10)), (''class'', Str ''stroke-slate-800 stroke-[2]'')] [],
     Element ''line''
       [(''x1'', Val (Num 25)), (''y1'', Val (Num 0)), (''x2'', Val (Num 35)),
        (''y2'', Val (Num 0)), (''class'', Str ''stroke-slate-800 stroke-[2]'')] []]"
| "symbolGeometry GateOr =
    [Element ''path''
       [(''d'', Str ''M -30 -25 Q -10 -25 5 0 Q -10 25 -30 25 Q -20 0 -30 -25''),
        (''class'', Str ''stroke-slate-800 stroke-[2] fill-white'')] [],
     Element ''line''
       [(''x1'', Val (Num (-45))), (''y1'', Val (Num (-10))), (''x2'', Val (Num (-25))),
        (''y2'', Val (Num (-10))), (''class'', Str ''stroke-slate-800 stroke-[2]'')] [],
     Element ''line''
       [(''x1'', Val (Num (-45))), (''y1'', Val (Num 10)), (''x2'', Val (Num (-25))),
        (''y2'', Val (Num 10)), (''class'', Str ''stroke-slate-800 stroke-[2]'')] [],
     Element ''line''
       [(''x1'', Val (Num 5)), (''y1'', Val (Num 0)), (''x2'', Val (Num 25)),
        (''y2'', Val (Num 0)), (''class'', Str ''stroke-slate-800 stroke-[2]'')] []]"
| "symbolGeometry GateNor =
    [Element ''path''
       [(''d'', Str ''M -30 -25 Q -10 -25 5 0 Q -10 25 -30 25 Q -20 0 -30 -25''),
        (''class'', Str ''stroke-slate-800 stroke-[2] fill-white'')] [],
     Element ''circle''
       [(''cx'', Val (Num 10)), (''cy'', Val (Num 0)), (''r'', Val (Num 5)),
        (''class'', Str ''stroke-slate-800 stroke-[2] fill-white'')] [],
     Element ''line''
       [(''x1'', Val (Num (-45))), (''y1'', Val (Num (-10))), (''x2'', Val (Num (-25))),
        (''y2'', Val (Num (-10))), (''class'', Str ''stroke-slate-800 stroke-[2]'')] [],
     Element ''line''
       [(''x1'', Val (Num (-45))), (''y1'', Val (Num 10)), (''x2'', Val (Num (-25))),
        (''y2'', Val (Num 10)), (''class'', Str ''stroke-slate-800 stroke-[2]'')] [],
     Element ''line''
       [(''x1'', Val (Num 15)), (''y1'', Val (Num 0)), (''x2'', Val (Num 30)),
        (''y2'', Val (Num 0)), (''class'', Str ''stroke-slate-800 stroke-[2]'')] []]"
| "symbolGeometry GateNot =
    [Element ''path''
       [(''d'', Str ''M -20 -15 L -20 15 L 10 0 Z''),
        (''class'', Str ''stroke-slate-800 stroke-[2] fill-white'')] [],
     Element ''circle''
       [(''cx'', Val (Num 15)), (''cy'', Val (Num 0)), (''r'', Val (Num 5)),
        (''class'', Str ''stroke-slate-800 stroke-[2] fill-white'')] [],
     Element ''line''
       [(''x1'', Val (Num (-35))), (''y1'', Val (Num 0)), (''x2'', Val (Num (-20))),
        (''y2'', Val (Num 0)), (''class'', Str ''stroke-slate-800 stroke-[2]'')] [],
     Element ''line''
       [(''x1'', Val (Num 20)), (''y1'', Val (Num 0)), (''x2'', Val (Num 35)),
        (''y2'', Val (Num 0)), (''class'', Str ''stroke-slate-800 stroke-[2]'')] []]"
| "symbolGeometry GateXor =
    [Element ''path''
       [(''d'', Str ''M -25 -25 Q -5 -25 10 0 Q -5 25 -25 25 Q -15 0 -25 -25''),
        (''class'', Str ''stroke-slate-800 stroke-[2] fill-white'')] [],
     Element ''path''
       [(''d'', Str ''M -32 -25 Q -22 0 -32 25''),
        (''class'', Str ''stroke-slate-800 stroke-[2] fill-none'')] [],
     Element ''line''
       [(''x1'', Val (Num (-45))), (''y1'', Val (Num (-10))), (''x2'', Val (Num (-28))),
        (''y2'', Val (Num (-10))), (''class'', Str ''stroke-slate-800 stroke-[2]'')] [],
     Element ''line''
       [(''x1'', Val (Num (-45))), (''y1'', Val (Num 10)), (''x2'', Val (Num (-28))),
        (''y2'', Val (Num 10)), (''class'', Str ''stroke-slate-800 stroke-[2]'')] [],
     Element ''line''
       [(''x1'', Val (Num 10)), (''y1'', Val (Num 0)), (''x2'', Val (Num 25)),
        (''y2'', Val (Num 0)), (''class'', Str ''stroke-slate-800 stroke-[2]'')] []]"
| "symbolGeometry _ = []"

fun symbolPins :: "ComponentType \<Rightarrow> (string \<times> real \<times> real) list" where
  "symbolPins Resistor = [(''left'', (-30), 0), (''right'', 30, 0)]"
| "symbolPins Capacitor = [(''left'', (-30), 0), (''right'', 30, 0)]"
| "symbolPins Inductor = [(''left'', (-30), 0), (''right'', 30, 0)]"
| "symbolPins Diode = [(''anode'', (-30), 0), (''cathode'', 30, 0)]"
| "symbolPins Led = [(''anode'', (-30), 0), (''cathode'', 30, 0)]"
| "symbolPins SourceV = [(''top'', 0, (-30)), (''bottom'', 0, 30)]"
| "symbolPins SourceI = [(''top'', 0, (-30)), (''bottom'', 0, 30)]"
| "symbolPins Gnd = [(''top'', 0, (-10))]"
| "symbolPins Opamp = [(''in_inv'', (-50), (-15)), (''in_non'', (-50), 15), (''out'', 55, 0)]"
| "symbolPins TransistorNpn = [(''base'', (-30), 0), (''collector'', 15, (-40)), (''emitter'', 15, 40)]"
| "symbolPins TransistorPnp = [(''base'', (-30), 0), (''collector'', 15, (-40)), (''emitter'', 15, 40)]"
| "symbolPins MosfetN = [(''gate'', (-30), 0), (''drain'', 15, (-40)), (''source'', 15, 40)]"
| "symbolPins MosfetP = [(''gate'', (-30), 0), (''drain'', 15, (-40)), (''source'', 15, 40)]"
| "symbolPins GateAnd = [(''in1'', (-45), (-10)), (''in2'', (-45), 10), (''out'', 30, 0)]"
| "symbolPins GateNand = [(''in1'', (-45), (-10)), (''in2'', (-45), 10), (''out'', 35, 0)]"
| "symbolPins GateOr = [(''in1'', (-45), (-10)), (''in2'', (-45), 10), (''out'', 25, 0)]"
| "symbolPins GateNor = [(''in1'', (-45), (-10)), (''in2'', (-45), 10), (''out'', 30, 0)]"
| "symbolPins GateNot = [(''in'', (-35), 0), (''out'', 35, 0)]"
| "symbolPins GateXor = [(''in1'', (-45), (-10)), (''in2'', (-45), 10), (''out'', 25, 0)]"
| "symbolPins _ = []"

definition drawSymbol ::
  "ComponentType \<Rightarrow> svg_node \<Rightarrow> svg_node \<times> (string \<times> real \<times> real) list" where
  "drawSymbol ty g = (appendChildren g (symbolGeometry ty), symbolPins ty)"

section \<open>Engine state\<close>

text \<open>
  The engine holds the host's \<open>svg\<close> element, the group \<open>rootGroup\<close> inside it and the
  registry. \<open>activeLayer\<close> is \<open>rootGroup\<close> itself, so the layer is the list of children
  of that group in document order (first child first, which is drawn first and so lies
  behind the later ones). \<open>svg_host\<close> is everything of the \<open>svg\<close> element that is not a
  child of \<open>rootGroup\<close>: the engine reads it only in \<open>getExportSVG\<close>, which returns
  \<open>svg.outerHTML\<close> and changes nothing; that serialisation is not part of the model.
\<close>

record TechDrawEngine =
  svg_host :: "svg_node list"
  activeLayer :: "svg_node list"
  components :: "string \<rightharpoonup> ComponentInstance"

definition newEngine :: "svg_node list \<Rightarrow> svg_node list \<Rightarrow> TechDrawEngine" where
  "newEngine host rootChildren =
     \<lparr>svg_host = host, activeLayer = rootChildren, components = Map.empty\<rparr>"

subsection \<open>reset\<close>

text \<open>The loop \<open>while (firstChild) removeChild(firstChild)\<close> on the list of children.\<close>

fun removeChildren :: "svg_node list \<Rightarrow> svg_node list" where
  "removeChildren [] = []"
| "removeChildren (c # cs) = removeChildren cs"

definition reset :: "TechDrawEngine \<Rightarrow> TechDrawEngine" where
  "reset e = e\<lparr>activeLayer := removeChildren (activeLayer e), components := Map.empty\<rparr>"

subsection \<open>add\<close>

definition symbolGroup :: "string \<Rightarrow> jsval \<Rightarrow> jsval \<Rightarrow> jsval \<Rightarrow> svg_node" where
  "symbolGroup cid x y rot =
     createEl ''g''
       [(''class'', Str ''symbol cursor-pointer hover:opacity-80 transition-opacity''),
        (''transform'', TranslateRotate x y rot),
        (''data-id'', Str cid)]"

fun setAttribute :: "svg_node \<Rightarrow> string \<Rightarrow> attr_val \<Rightarrow> svg_node" where
  "setAttribute (Element tag attrs cs) k v =
     Element tag
       (if k \<in> set (map fst attrs)
        then map (\<lambda>(k', v'). if k' = k then (k', v) else (k', v')) attrs
        else attrs @ [(k, v)]) cs"
| "setAttribute (TextNode s) k v = TextNode s"

fun setTextContent :: "svg_node \<Rightarrow> string \<Rightarrow> svg_node" where
  "setTextContent (Element tag attrs cs) s = Element tag attrs (if s = [] then [] else [TextNode s])"
| "setTextContent (TextNode s') s = TextNode s"

definition labelText :: "string \<Rightarrow> jsval \<Rightarrow> svg_node" where
  "labelText lbl rot =
     (let txt = createEl ''text''
            [(''x'', Val (Num 0)), (''y'', Val (Num (-45))),
             (''class'', Str ''fill-slate-600 font-sans text-xs font-bold text-anchor-middle text-center'')];
          txt = setTextContent txt lbl;
          txt = setAttribute txt ''transform'' (RotateBy (js_neg rot));
          txt = setAttribute txt ''text-anchor'' (Str ''middle'')
      in txt)"

text \<open>
  The destructuring \<open>{ x, y, rotate = 0, label = '' } = config\<close>: a default applies when
  the property is missing or \<open>undefined\<close>.
\<close>

definition rotateOf :: "ComponentConfig \<Rightarrow> jsval" where
  "rotateOf config =
     (case cfg_rotate config of
        None \<Rightarrow> Num 0
      | Some r \<Rightarrow> if r = Undefined then Num 0 else r)"

definition labelOf :: "ComponentConfig \<Rightarrow> string" where
  "labelOf config = (case cfg_label config of None \<Rightarrow> [] | Some l \<Rightarrow> l)"

text \<open>
  The absolute position of one pin (lines 248 to 256), every operation in double
  arithmetic and in the order of the source.
\<close>

definition absPin ::
  "libm \<Rightarrow> jsval \<Rightarrow> jsval \<Rightarrow> jsval \<Rightarrow> string \<times> real \<times> real \<Rightarrow> string \<times> PinPosition" where
  "absPin M x y rot = (\<lambda>(key, px, py).
     let rad = js_div180 (js_mul rot (Num Math_PI));
         c = Math_cos M rad;
         s = Math_sin M rad;
         rx = js_sub (js_mul (Num px) c) (js_mul (Num py) s);
         ry = js_add (js_mul (Num px) s) (js_mul (Num py) c)
     in (key, \<lparr>pin_x = js_add x rx, pin_y = js_add y ry\<rparr>))"

definition add ::
  "libm \<Rightarrow> ComponentType \<Rightarrow> string \<Rightarrow> ComponentConfig \<Rightarrow> TechDrawEngine \<Rightarrow> TechDrawEngine" where
  "add M ty cid config e =
     (let x = cfg_x config;
          y = cfg_y config;
          rot = rotateOf config;
          lbl = labelOf config;
          (g, pins) = drawSymbol ty (symbolGroup cid x y rot);
          g' = (if lbl \<noteq> [] then appendChild g (labelText lbl rot) else g);
          absPins = map (absPin M x y rot) pins
      in e\<lparr>activeLayer := activeLayer e @ [g'],
            components := (components e)(cid \<mapsto>
              \<lparr>inst_id = cid, inst_type = ty, inst_x = x, inst_y = y,
               inst_rotation = rot, inst_pins = absPins\<rparr>)\<rparr>)"

subsection \<open>connect\<close>

text \<open>
  \<open>c.pins\<close> is a plain object (\<open>absPins = {}\<close> in \<open>add\<close>), so the read \<open>c.pins[name]\<close>
  follows JavaScript's property lookup: an own property if \<open>add\<close> stored one, otherwise a
  member that every plain object inherits from \<open>Object.prototype\<close>, otherwise
  \<open>undefined\<close>. The inherited members are those of the ECMAScript standard (sections
  20.1.3 and B.2.2 of ECMA-262); each is a function or an object, hence truthy, and has
  no property \<open>x\<close> or \<open>y\<close>.
\<close>

definition object_prototype_keys :: "string list" where
  "object_prototype_keys =
     [''constructor'', ''hasOwnProperty'', ''isPrototypeOf'', ''propertyIsEnumerable'',
      ''toLocaleString'', ''toString'', ''valueOf'', ''__proto__'',
      ''__defineGetter__'', ''__defineSetter__'', ''__lookupGetter__'', ''__lookupSetter__'']"

datatype pin_lookup = OwnPin PinPosition | Inherited | Absent

definition getPin :: "(string \<times> PinPosition) list \<Rightarrow> string \<Rightarrow> pin_lookup" where
  "getPin ps name =
     (case map_of ps name of
        Some p \<Rightarrow> OwnPin p
      | None \<Rightarrow> if name \<in> set object_prototype_keys then Inherited else Absent)"

fun prop_x :: "pin_lookup \<Rightarrow> jsval" where
  "prop_x (OwnPin p) = pin_x p"
| "prop_x _ = Undefined"

fun prop_y :: "pin_lookup \<Rightarrow> jsval" where
  "prop_y (OwnPin p) = pin_y p"
| "prop_y _ = Undefined"

text \<open>The Manhattan routing of \<open>connect\<close> (lines 280 to 294), in double arithmetic.\<close>

definition midX :: "pin_lookup \<Rightarrow> pin_lookup \<Rightarrow> jsval" where
  "midX p1 p2 = js_half (js_add (prop_x p1) (prop_x p2))"

definition midY :: "pin_lookup \<Rightarrow> pin_lookup \<Rightarrow> jsval" where
  "midY p1 p2 = js_half (js_add (prop_y p1) (prop_y p2))"

definition deltaX :: "pin_lookup \<Rightarrow> pin_lookup \<Rightarrow> jsval" where
  "deltaX p1 p2 = Math_abs (js_sub (prop_x p1) (prop_x p2))"

definition deltaY :: "pin_lookup \<Rightarrow> pin_lookup \<Rightarrow> jsval" where
  "deltaY p1 p2 = Math_abs (js_sub (prop_y p1) (prop_y p2))"

definition route :: "pin_lookup \<Rightarrow> pin_lookup \<Rightarrow> path_cmd list" where
  "route p1 p2 =
     MoveTo (prop_x p1) (prop_y p1) #
     (if js_gt (deltaX p1 p2) (deltaY p1 p2)
      then [LineTo (midX p1 p2) (prop_y p1), LineTo (midX p1 p2) (prop_y p2),
            LineTo (prop_x p2) (prop_y p2)]
      else [LineTo (prop_x p1) (midY p1 p2), LineTo (prop_x p2) (midY p1 p2),
            LineTo (prop_x p2) (prop_y p2)])"

definition wirePath :: "path_cmd list \<Rightarrow> svg_node" where
  "wirePath d =
     createEl ''path'' [(''d'', PathData d), (''class'', Str ''stroke-slate-700 stroke-[2] fill-none'')]"

definition solderDot :: "pin_lookup \<Rightarrow> svg_node" where
  "solderDot p = createEl ''circle''
     [(''cx'', Val (prop_x p)), (''cy'', Val (prop_y p)), (''r'', Val (Num 3)),
      (''class'', Str ''fill-slate-800'')]"

text \<open>\<open>insertBefore(path, firstChild)\<close> when the layer has a child, \<open>appendChild(path)\<close> otherwise.\<close>

fun insertBehind :: "svg_node \<Rightarrow> svg_node list \<Rightarrow> svg_node list" where
  "insertBehind p [] = [p]"
| "insertBehind p (c # cs) = p # c # cs"

text \<open>The two \<open>console.warn\<close> notices; \<open>connect\<close> returns the notice it printed, if any.\<close>

datatype diagnostic = InvalidIds string string | InvalidPins string string

definition connect ::
  "string \<Rightarrow> string \<Rightarrow> string \<Rightarrow> string \<Rightarrow> TechDrawEngine \<Rightarrow> diagnostic option \<times> TechDrawEngine" where
  "connect fromId fromPin toId toPin e =
     (case (components e fromId, components e toId) of
        (Some c1, Some c2) \<Rightarrow>
          (let p1 = getPin (inst_pins c1) fromPin;
               p2 = getPin (inst_pins c2) toPin
           in if p1 = Absent \<or> p2 = Absent
              then (Some (InvalidPins fromPin toPin), e)
              else (None,
                    e\<lparr>activeLayer :=
                        insertBehind (wirePath (route p1 p2)) (activeLayer e)
                          @ [solderDot p1, solderDot p2]\<rparr>))
      | _ \<Rightarrow> (Some (InvalidIds fromId toId), e))"

section \<open>Instruction sequences\<close>

text \<open>
  The calls a generated script makes on the engine, run in order on a platform with the
  Math library \<open>M\<close>.
\<close>

datatype instr =
    Add ComponentType string ComponentConfig
  | Connect string string string string
  | Reset

fun exec :: "libm \<Rightarrow> instr \<Rightarrow> TechDrawEngine \<Rightarrow> TechDrawEngine" where
  "exec M (Add ty cid config) e = add M ty cid config e"
| "exec M (Connect fromId fromPin toId toPin) e = snd (connect fromId fromPin toId toPin e)"
| "exec M Reset e = reset e"

fun run :: "libm \<Rightarrow> instr list \<Rightarrow> TechDrawEngine \<Rightarrow> TechDrawEngine" where
  "run M [] e = e"
| "run M (i # is) e = run M is (exec M i e)"

section \<open>The pin-name table of the specification\<close>

text \<open>
  The table of section 4.1 of the specification, written from its words and independent of
  \<open>symbolPins\<close>: the documented pin names of each type. The composite device tags are not
  in the table; the specification gives an unrecognised type the empty pin set.
\<close>

fun documentedPinNames :: "ComponentType \<Rightarrow> string set" where
  "documentedPinNames Resistor = {''left'', ''right''}"
| "documentedPinNames Capacitor = {''left'', ''right''}"
| "documentedPinNames Inductor = {''left'', ''right''}"
| "documentedPinNames Diode = {''anode'', ''cathode''}"
| "documentedPinNames Led = {''anode'', ''cathode''}"
| "documentedPinNames SourceV = {''top'', ''bottom''}"
| "documentedPinNames SourceI = {''top'', ''bottom''}"
| "documentedPinNames Gnd = {''top''}"
| "documentedPinNames Opamp = {''in_inv'', ''in_non'', ''out''}"
| "documentedPinNames TransistorNpn = {''base'', ''collector'', ''emitter''}"
| "documentedPinNames TransistorPnp = {''base'', ''collector'', ''emitter''}"
| "documentedPinNames MosfetN = {''gate'', ''drain'', ''source''}"
| "documentedPinNames MosfetP = {''gate'', ''drain'', ''source''}"
| "documentedPinNames GateNot = {''in'', ''out''}"
| "documentedPinNames GateAnd = {''in1'', ''in2'', ''out''}"
| "documentedPinNames GateOr = {''in1'', ''in2'', ''out''}"
| "documentedPinNames GateNand = {''in1'', ''in2'', ''out''}"
| "documentedPinNames GateNor = {''in1'', ''in2'', ''out''}"
| "documentedPinNames GateXor = {''in1'', ''in2'', ''out''}"
| "documentedPinNames _ = {}"

definition pinNames :: "ComponentInstance \<Rightarrow> string set" where
  "pinNames inst = set (map fst (inst_pins inst))"

section \<open>Example states\<close>

text \<open>
  A Math library for the closed examples. At \<open>Math.PI / 2\<close>, the double
  \<open>1.5707963267948966\<close>, it returns the doubles \<open>6.123233995736766e-17\<close> and \<open>1\<close>, which
  are the correctly rounded cosine and sine there and what V8 returns; elsewhere it has
  the exact cosine and sine, which no example consults.
\<close>

definition quarter_turn :: real where
  "quarter_turn = 884279719003555 / 2 ^ 49"

definition example_libm :: libm where
  "example_libm =
     \<lparr>libm_cos = (\<lambda>a. if a = quarter_turn then 4967757600021511 / 2 ^ 106 else cos a),
      libm_sin = (\<lambda>a. if a = quarter_turn then 1 else sin a)\<rparr>"

text \<open>The two placements of the specification's end-to-end example, from the empty state.\<close>

definition cfgAt :: "real \<Rightarrow> real \<Rightarrow> ComponentConfig" where
  "cfgAt x y = \<lparr>cfg_x = Num x, cfg_y = Num y, cfg_rotate = None, cfg_label = None\<rparr>"

definition two_resistors :: "libm \<Rightarrow> TechDrawEngine" where
  "two_resistors M =
     run M [Add Resistor ''r1'' (cfgAt (-100) 0), Add Resistor ''r2'' (cfgAt 100 0)]
       (newEngine [] [])"




text \<open>The same id placed twice, at \<open>(0, 0)\<close> and then at \<open>(100, 0)\<close>.\<close>

definition readd_example :: "libm \<Rightarrow> TechDrawEngine" where
  "readd_example M =
     run M [Add Resistor ''r1'' (cfgAt 0 0), Add Resistor ''r1'' (cfgAt 100 0)]
       (newEngine [] [])"

text \<open>The number of top-level primitives of a layer with a given tag.\<close>

definition countTag :: "string \<Rightarrow> svg_node list \<Rightarrow> nat" where
  "countTag t ns = length (filter (\<lambda>n. tagName n = t) ns)"

section \<open>Facts about rounding\<close>

lemma expo_eq:
  assumes "2 powi k \<le> \<bar>x\<bar>" and "\<bar>x\<bar> < 2 powi (k + 1)"
  shows "\<lfloor>log 2 \<bar>x\<bar>\<rfloor> = k"
proof -
  have "0 < (2::real) powi k"
    by simp
  with assms(1) have pos: "0 < \<bar>x\<bar>"
    by linarith
  have "(2::real) powr (of_int k) = 2 powi k"
    by (simp add: powr_real_of_int')
  moreover have "(2::real) powr (of_int k + 1) = 2 powi (k + 1)"
    using powr_real_of_int' [of 2 "k + 1"] by simp
  ultimately show ?thesis
    using assms pos by (subst floor_log_eq_powr_iff) simp_all
qed

lemma expo_bounds:
  assumes "x \<noteq> 0"
  shows "2 powi \<lfloor>log 2 \<bar>x\<bar>\<rfloor> \<le> \<bar>x\<bar>" and "\<bar>x\<bar> < 2 powi (\<lfloor>log 2 \<bar>x\<bar>\<rfloor> + 1)"
proof -
  have pos: "0 < \<bar>x\<bar>" using assms by simp
  have "(2::real) powr (of_int k) = 2 powi k" for k
    by (simp add: powr_real_of_int')
  moreover have "(2::real) powr (of_int k + 1) = 2 powi (k + 1)" for k
    using powr_real_of_int' [of 2 "k + 1"] by simp
  moreover have "2 powr (of_int \<lfloor>log 2 \<bar>x\<bar>\<rfloor>) \<le> \<bar>x\<bar> \<and> \<bar>x\<bar> < 2 powr (of_int \<lfloor>log 2 \<bar>x\<bar>\<rfloor> + 1)"
    using floor_log_eq_powr_iff [of "\<bar>x\<bar>" 2 "\<lfloor>log 2 \<bar>x\<bar>\<rfloor>"] pos by simp
  ultimately show "2 powi \<lfloor>log 2 \<bar>x\<bar>\<rfloor> \<le> \<bar>x\<bar>" and "\<bar>x\<bar> < 2 powi (\<lfloor>log 2 \<bar>x\<bar>\<rfloor> + 1)"
    by metis+
qed

lemma round_even_of_int: "round_even (of_int n) = n"
  by (simp add: round_even_def)

lemma round_even_near:
  assumes "\<bar>y - of_int m\<bar> < 1 / 2"
  shows "round_even y = m"
proof -
  consider "of_int m \<le> y" | "y < of_int m" by linarith
  then show ?thesis
  proof cases
    case 1
    with assms have "\<lfloor>y\<rfloor> = m" by (intro floor_unique) linarith+
    with assms 1 show ?thesis by (simp add: round_even_def Let_def)
  next
    case 2
    with assms have "\<lfloor>y\<rfloor> = m - 1" by (intro floor_unique) (simp, linarith+)
    with assms 2 show ?thesis by (simp add: round_even_def Let_def)
  qed
qed

lemma round_even_le:
  assumes "y \<le> of_int n"
  shows "round_even y \<le> n"
proof -
  have f: "of_int \<lfloor>y\<rfloor> \<le> y" "y < of_int \<lfloor>y\<rfloor> + 1" by linarith+
  show ?thesis
  proof (cases "y = of_int n")
    case True
    then show ?thesis by (simp add: round_even_of_int)
  next
    case False
    with assms have "y < of_int n" by simp
    then have "\<lfloor>y\<rfloor> < n" by linarith
    then show ?thesis
      by (auto simp: round_even_def Let_def)
  qed
qed

lemma round_even_ge:
  assumes "of_int n \<le> y"
  shows "n \<le> round_even y"
proof -
  have "n \<le> \<lfloor>y\<rfloor>" using assms by linarith
  then show ?thesis
    by (auto simp: round_even_def Let_def)
qed


lemma two_powi_pos: "0 < (2::real) powi k"
  by simp

lemma two_powi_le: "j \<le> k \<Longrightarrow> (2::real) powi j \<le> 2 powi k"
  by (rule power_int_increasing) simp_all

lemma two_powi_less: "j < k \<Longrightarrow> (2::real) powi j < 2 powi k"
  by (rule power_int_strict_increasing) simp_all

lemma two_powi_le_D: "(2::real) powi j \<le> 2 powi k \<Longrightarrow> j \<le> k"
  using two_powi_less [of k j] by (cases "j \<le> k") simp_all

lemma two_powi_less_D: "(2::real) powi j < 2 powi k \<Longrightarrow> j < k"
  using two_powi_le [of k j] by (cases "j < k") simp_all

lemma two_powi_nat: "0 \<le> k \<Longrightarrow> (2::real) powi k = of_int (2 ^ nat k)"
  by (simp add: power_int_def)

lemma two_powi_div: "(2::real) powi j / 2 powi k = 2 powi (j - k)"
  by (simp add: power_int_diff)

lemma quantum_pos: "0 < quantum x"
  by (simp add: quantum_def)

lemma fl_multiple:
  assumes "x \<noteq> 0" and "x / quantum x = of_int n" and "\<bar>x\<bar> < 2 ^ 1024"
  shows "fl x = Num x"
proof -
  have "round_even (x / quantum x) = n"
    by (simp only: assms(2) round_even_of_int)
  moreover have "of_int n * quantum x = x"
    using quantum_pos [of x] assms(2) by (simp add: field_simps)
  ultimately have "of_int (round_even (x / quantum x)) * quantum x = x"
    by simp
  with assms(1,3) show ?thesis
    by (simp add: fl_def Let_def)
qed

lemma fl_exact:
  assumes x: "x = of_int m * 2 powi j" and m: "\<bar>m\<bar> \<le> 2 ^ 53" and j: "- 1074 \<le> j"
    and fin: "\<bar>x\<bar> < 2 ^ 1024"
  shows "fl x = Num x"
proof (cases "x = 0")
  case True
  then show ?thesis by (simp add: fl_def)
next
  case False
  define e where "e = \<lfloor>log 2 \<bar>x\<bar>\<rfloor>"
  define E where "E = max e (- 1022)"
  have q: "quantum x = 2 powi (E - 52)"
    by (simp add: quantum_def e_def E_def)
  have lo: "2 powi e \<le> \<bar>x\<bar>"
    unfolding e_def using False by (rule expo_bounds)
  have absx: "\<bar>x\<bar> = of_int \<bar>m\<bar> * 2 powi j"
    by (simp add: x abs_mult)
  have "\<exists>n. x / quantum x = of_int n"
  proof (cases "E - 52 \<le> j")
    case True
    have "x / quantum x = x / 2 powi (E - 52)"
      by (simp only: q)
    also have "\<dots> = of_int m * (2 powi j / 2 powi (E - 52))"
      by (subst x) simp
    also have "\<dots> = of_int m * 2 powi (j - (E - 52))"
      by (simp only: two_powi_div)
    also have "\<dots> = of_int (m * 2 ^ nat (j - (E - 52)))"
      using True by (simp add: two_powi_nat)
    finally show ?thesis by blast
  next
    case False
    with j have Ee: "E = e" and je: "j + 53 \<le> e"
      by (auto simp: E_def)
    have "real_of_int \<bar>m\<bar> \<le> real_of_int (2 ^ 53)"
      using m by (simp only: of_int_le_iff)
    then have "real_of_int \<bar>m\<bar> \<le> 2 ^ 53"
      by simp
    then have "\<bar>x\<bar> \<le> 2 ^ 53 * 2 powi j"
      unfolding absx by (rule mult_right_mono) simp
    also have "\<dots> = 2 powi (j + 53)"
      by (simp add: power_int_add)
    also have "\<dots> \<le> 2 powi e"
      using je by (rule two_powi_le)
    finally have "\<bar>x\<bar> = 2 powi e"
      using lo by simp
    then have "x = 2 powi e \<or> x = - (2 powi e)"
      by (simp add: abs_if split: if_splits)
    moreover have "2 powi e / quantum x = (2::real) ^ 52"
      by (simp only: q Ee two_powi_div) simp
    ultimately have "x / quantum x = of_int (2 ^ 52) \<or> x / quantum x = of_int (- (2 ^ 52))"
      by auto
    then show ?thesis by blast
  qed
  then obtain n where "x / quantum x = of_int n" ..
  with \<open>x \<noteq> 0\<close> show ?thesis
    using fin by (rule fl_multiple)
qed


lemma quotient_less:
  assumes "x \<noteq> 0"
  shows "\<bar>x\<bar> / quantum x < 2 ^ 53"
proof -
  define e where "e = \<lfloor>log 2 \<bar>x\<bar>\<rfloor>"
  define E where "E = max e (- 1022)"
  have q: "quantum x = 2 powi (E - 52)"
    by (simp add: quantum_def e_def E_def)
  have "\<bar>x\<bar> < 2 powi (e + 1)"
    unfolding e_def using assms by (rule expo_bounds)
  also have "\<dots> \<le> 2 powi (E + 1)"
    by (rule two_powi_le) (simp add: E_def)
  finally have "\<bar>x\<bar> / quantum x < 2 powi (E + 1) / quantum x"
    using quantum_pos [of x] by (simp add: divide_strict_right_mono)
  also have "\<dots> = 2 ^ 53"
    by (simp only: q two_powi_div) simp
  finally show ?thesis .
qed

lemma round_quotient_le:
  assumes "x \<noteq> 0"
  shows "\<bar>round_even (x / quantum x)\<bar> \<le> 2 ^ 53"
proof -
  have b: "\<bar>x / quantum x\<bar> \<le> real_of_int (2 ^ 53)"
    using quotient_less [OF assms] quantum_pos [of x] by (simp add: abs_divide)
  then have "x / quantum x \<le> real_of_int (2 ^ 53)" "real_of_int (- (2 ^ 53)) \<le> x / quantum x"
    unfolding of_int_minus by linarith+
  then have "round_even (x / quantum x) \<le> 2 ^ 53" "- (2 ^ 53) \<le> round_even (x / quantum x)"
    by (simp_all only: round_even_le round_even_ge)
  then show ?thesis
    by (simp add: abs_le_iff)
qed

lemma fl_idem:
  assumes "fl x = Num r"
  shows "fl r = Num r"
proof (cases "x = 0")
  case True
  with assms have "r = 0" by (simp add: fl_def)
  then show ?thesis by (simp add: fl_def)
next
  case False
  define e where "e = \<lfloor>log 2 \<bar>x\<bar>\<rfloor>"
  define E where "E = max e (- 1022)"
  define n where "n = round_even (x / quantum x)"
  have q: "quantum x = 2 powi (E - 52)"
    by (simp add: quantum_def e_def E_def)
  from assms False have r: "r = of_int n * quantum x" and fin: "\<bar>r\<bar> < 2 ^ 1024"
    by (auto simp: fl_def Let_def n_def split: if_splits)
  have "r = of_int n * 2 powi (E - 52)"
    by (simp only: r q)
  moreover have "\<bar>n\<bar> \<le> 2 ^ 53"
    unfolding n_def using False by (rule round_quotient_le)
  moreover have "- 1074 \<le> E - 52"
    by (simp add: E_def)
  ultimately show ?thesis
    using fin by (rule fl_exact)
qed

lemma fl_bound:
  assumes b: "\<bar>x\<bar> \<le> 2 powi k" and lo: "- 1074 \<le> k" and hi: "k < 1024"
  shows "\<exists>r. fl x = Num r \<and> \<bar>r\<bar> \<le> 2 powi k"
proof (cases "x = 0")
  case True
  then show ?thesis by (simp add: fl_def)
next
  case False
  define e where "e = \<lfloor>log 2 \<bar>x\<bar>\<rfloor>"
  define E where "E = max e (- 1022)"
  define n where "n = round_even (x / quantum x)"
  define N :: int where "N = 2 ^ nat (k - (E - 52))"
  have q: "quantum x = 2 powi (E - 52)"
    by (simp add: quantum_def e_def E_def)
  have "2 powi e \<le> \<bar>x\<bar>"
    unfolding e_def using False by (rule expo_bounds)
  with b have "(2::real) powi e \<le> 2 powi k" by simp
  then have "e \<le> k" by (rule two_powi_le_D)
  with lo have Ek: "E - 52 \<le> k" by (simp add: E_def)
  have N: "real_of_int N * quantum x = 2 powi k"
  proof -
    have "real_of_int N = 2 powi (k - (E - 52))"
      unfolding N_def using Ek by (simp add: two_powi_nat)
    then have "real_of_int N * quantum x = 2 powi (k - (E - 52)) * 2 powi (E - 52)"
      by (simp only: q)
    also have "\<dots> = 2 powi k"
      by (simp flip: power_int_add)
    finally show ?thesis .
  qed
  have "\<bar>x / quantum x\<bar> \<le> real_of_int N"
  proof -
    have "\<bar>x\<bar> \<le> real_of_int N * quantum x"
      using b by (simp only: N)
    then show ?thesis
      using quantum_pos [of x] by (simp add: abs_divide field_simps)
  qed
  then have "x / quantum x \<le> real_of_int N" "real_of_int (- N) \<le> x / quantum x"
    unfolding of_int_minus by linarith+
  then have "n \<le> N" "- N \<le> n"
    unfolding n_def by (simp_all only: round_even_le round_even_ge)
  then have "\<bar>real_of_int n\<bar> \<le> real_of_int N"
    by (simp add: abs_le_iff)
  then have "\<bar>real_of_int n\<bar> * quantum x \<le> real_of_int N * quantum x"
    using quantum_pos [of x] by (simp add: mult_right_mono)
  then have r: "\<bar>real_of_int n * quantum x\<bar> \<le> 2 powi k"
    using quantum_pos [of x] by (simp add: abs_mult N)
  have "(2::real) powi k \<le> 2 powi 1023"
    using hi by (intro two_powi_le) simp
  also have "\<dots> < 2 ^ 1024"
    by simp
  finally have "\<bar>real_of_int n * quantum x\<bar> < 2 ^ 1024"
    using r by simp
  with False r show ?thesis
    by (simp add: fl_def Let_def n_def)
qed

lemma fl_nearest:
  assumes lo: "2 powi k \<le> \<bar>x\<bar>" and hi: "\<bar>x\<bar> < 2 powi (k + 1)"
    and k: "- 1022 \<le> k" "k < 1023"
    and m: "\<bar>x / 2 powi (k - 52) - of_int m\<bar> < 1 / 2"
  shows "fl x = Num (of_int m * 2 powi (k - 52))"
proof -
  have "0 < \<bar>x\<bar>"
    using lo two_powi_pos [of k] by linarith
  then have nz: "x \<noteq> 0"
    by simp
  have e: "\<lfloor>log 2 \<bar>x\<bar>\<rfloor> = k"
    using lo hi by (rule expo_eq)
  have q: "quantum x = 2 powi (k - 52)"
    using k by (simp add: quantum_def e)
  have n: "round_even (x / 2 powi (k - 52)) = m"
    using m by (rule round_even_near)
  have "\<exists>r. fl x = Num r \<and> \<bar>r\<bar> \<le> 2 powi (k + 1)"
    using hi k by (intro fl_bound) simp_all
  then obtain r where "fl x = Num r"
    by blast
  moreover from this nz have "r = of_int m * 2 powi (k - 52)"
    by (auto simp: fl_def Let_def n q split: if_splits)
  ultimately show ?thesis
    by simp
qed

lemma quantum_eq:
  assumes "2 powi k \<le> \<bar>x\<bar>" and "\<bar>x\<bar> < 2 powi (k + 1)"
  shows "quantum x = 2 powi (max k (- 1022) - 52)"
  unfolding quantum_def expo_eq [OF assms] ..

lemma fl_tie_to_even: "fl (9007199254740992 + 1) = Num 9007199254740992"
proof -
  have q: "quantum 9007199254740993 = 2"
    using quantum_eq [of 53 9007199254740993] by simp
  have "round_even (9007199254740993 / 2) = 4503599627370496"
    by (simp add: round_even_def Let_def)
  then show ?thesis
    by (simp add: fl_def q Let_def)
qed

lemma fl_overflow:
  assumes "2 ^ 1024 \<le> x"
  shows "fl x = PosInf"
proof -
  have pos: "0 < x"
    using assms by (rule less_le_trans [rotated]) simp
  then have nz: "x \<noteq> 0" by simp
  define e where "e = \<lfloor>log 2 \<bar>x\<bar>\<rfloor>"
  have lo: "2 powi e \<le> \<bar>x\<bar>" and hi: "\<bar>x\<bar> < 2 powi (e + 1)"
    unfolding e_def using nz by (rule expo_bounds)+
  have "(2::real) powi 1024 \<le> \<bar>x\<bar>"
    using assms pos by simp
  with hi have "(2::real) powi 1024 < 2 powi (e + 1)"
    by linarith
  then have e: "1024 \<le> e"
    using two_powi_less_D [of 1024 "e + 1"] by simp
  then have q: "quantum x = 2 powi (e - 52)"
    by (simp add: quantum_def e_def [symmetric])
  have "real_of_int (2 ^ 52) * quantum x = 2 powi e"
    unfolding q using power_int_add [of "2::real" 52 "e - 52"] by simp
  with lo pos have "real_of_int (2 ^ 52) \<le> x / quantum x"
    using quantum_pos [of x] by (simp add: field_simps)
  then have "(2 ^ 52 :: int) \<le> round_even (x / quantum x)"
    by (rule round_even_ge)
  then have "real_of_int (2 ^ 52) \<le> real_of_int (round_even (x / quantum x))"
    by (simp only: of_int_le_iff)
  then have "real_of_int (2 ^ 52) * quantum x \<le> real_of_int (round_even (x / quantum x)) * quantum x"
    using quantum_pos [of x] by (simp only: mult_le_cancel_right) simp
  then have "2 powi e \<le> real_of_int (round_even (x / quantum x)) * quantum x"
    using \<open>real_of_int (2 ^ 52) * quantum x = 2 powi e\<close> by simp
  moreover have "(2::real) powi 1024 \<le> 2 powi e"
    using e by (rule two_powi_le)
  ultimately have "2 ^ 1024 \<le> real_of_int (round_even (x / quantum x)) * quantum x"
    by simp
  then have "\<not> \<bar>real_of_int (round_even (x / quantum x)) * quantum x\<bar> < 2 ^ 1024"
    by linarith
  with nz pos show ?thesis
    by (simp add: fl_def Let_def)
qed

lemma fl_int:
  assumes "\<bar>n\<bar> \<le> 2 ^ 53"
  shows "fl (of_int n) = Num (of_int n)"
proof (rule fl_exact [where m = n and j = 0])
  show "real_of_int n = real_of_int n * 2 powi 0" by simp
  show "\<bar>n\<bar> \<le> 2 ^ 53" by (rule assms)
  show "- 1074 \<le> (0::int)" by simp
  have "\<bar>real_of_int n\<bar> \<le> real_of_int (2 ^ 53)"
    using assms by (simp only: of_int_abs [symmetric] of_int_le_iff)
  also have "\<dots> < 2 ^ 1024" by simp
  finally show "\<bar>real_of_int n\<bar> < 2 ^ 1024" .
qed

lemma fl_zero: "fl 0 = Num 0"
  by (simp add: fl_def)

lemma fl_one: "fl 1 = Num 1"
  using fl_int [of 1] by simp

lemma fl_numeral:
  "(numeral w :: int) \<le> 9007199254740992 \<Longrightarrow> fl (numeral w) = Num (numeral w)"
  using fl_int [of "numeral w"] by simp

lemma fl_neg_numeral:
  "(numeral w :: int) \<le> 9007199254740992 \<Longrightarrow> fl (- numeral w) = Num (- numeral w)"
  using fl_int [of "- numeral w"] by simp

lemmas fl_small = fl_zero fl_one fl_numeral fl_neg_numeral

lemma js_sub_Num: "js_sub (Num a) (Num b) = fl (a - b)"
  by (simp add: js_sub_def)

section \<open>Basic facts\<close>

lemma removeChildren_empty: "removeChildren cs = []"
  by (induction cs) simp_all

lemma fst_absPin: "fst \<circ> absPin M x y rot = fst"
  by (auto simp: fun_eq_iff absPin_def Let_def)

lemma add_registry:
  "components (add M ty cid config e) =
     (components e)(cid \<mapsto>
        \<lparr>inst_id = cid, inst_type = ty, inst_x = cfg_x config, inst_y = cfg_y config,
         inst_rotation = rotateOf config,
         inst_pins = map (absPin M (cfg_x config) (cfg_y config) (rotateOf config))
                       (symbolPins ty)\<rparr>)"
  by (simp add: add_def drawSymbol_def Let_def)

lemma appendChildren_Element:
  "appendChildren (Element tag attrs cs) ns = Element tag attrs (cs @ ns)"
  by (induction ns arbitrary: cs) simp_all

lemma add_layer:
  "activeLayer (add M ty cid config e) =
     activeLayer e @
       [Element ''g''
          [(''class'', Str ''symbol cursor-pointer hover:opacity-80 transition-opacity''),
           (''transform'', TranslateRotate (cfg_x config) (cfg_y config) (rotateOf config)),
           (''data-id'', Str cid)]
          (symbolGeometry ty @
           (if labelOf config = [] then []
            else [Element ''text''
                    [(''x'', Val (Num 0)), (''y'', Val (Num (- 45))),
                     (''class'',
                      Str ''fill-slate-600 font-sans text-xs font-bold text-anchor-middle text-center''),
                     (''transform'', RotateBy (js_neg (rotateOf config))),
                     (''text-anchor'', Str ''middle'')]
                    [TextNode (labelOf config)]]))]"
  by (simp add: add_def drawSymbol_def Let_def symbolGroup_def createEl_def labelText_def
      appendChildren_Element)

lemma add_host: "svg_host (add M ty cid config e) = svg_host e"
  by (simp add: add_def drawSymbol_def Let_def)

lemma connect_registry: "components (snd (connect fromId fromPin toId toPin e)) = components e"
  by (simp add: connect_def Let_def split: option.splits)

lemma connect_host: "svg_host (snd (connect fromId fromPin toId toPin e)) = svg_host e"
  by (simp add: connect_def Let_def split: option.splits)

lemma connect_resolved:
  assumes "components e fromId = Some c1" and "components e toId = Some c2"
    and "getPin (inst_pins c1) fromPin = p1" and "getPin (inst_pins c2) toPin = p2"
    and "p1 \<noteq> Absent" and "p2 \<noteq> Absent"
  shows "connect fromId fromPin toId toPin e =
           (None, e\<lparr>activeLayer :=
              wirePath (route p1 p2) # activeLayer e @ [solderDot p1, solderDot p2]\<rparr>)"
proof -
  have "insertBehind n cs = n # cs" for n :: svg_node and cs
    by (cases cs) simp_all
  with assms show ?thesis
    by (simp add: connect_def Let_def)
qed

lemma route_own:
  "route (OwnPin p1) (OwnPin p2) =
     (if js_gt (Math_abs (js_sub (pin_x p1) (pin_x p2))) (Math_abs (js_sub (pin_y p1) (pin_y p2)))
      then [MoveTo (pin_x p1) (pin_y p1),
            LineTo (js_half (js_add (pin_x p1) (pin_x p2))) (pin_y p1),
            LineTo (js_half (js_add (pin_x p1) (pin_x p2))) (pin_y p2),
            LineTo (pin_x p2) (pin_y p2)]
      else [MoveTo (pin_x p1) (pin_y p1),
            LineTo (pin_x p1) (js_half (js_add (pin_y p1) (pin_y p2))),
            LineTo (pin_x p2) (js_half (js_add (pin_y p1) (pin_y p2))),
            LineTo (pin_x p2) (pin_y p2)])"
  by (simp add: route_def midX_def midY_def deltaX_def deltaY_def)

lemma absPin_unrotated:
  "absPin M x y (Num 0) (key, px, py) =
     (key, \<lparr>pin_x = js_add x (js_sub (fl px) (fl 0)), pin_y = js_add y (js_add (fl 0) (fl py))\<rparr>)"
  by (simp add: absPin_def Let_def fl_zero)

lemma two_resistors_registry:
  "components (two_resistors M) ''r1'' = Some
     \<lparr>inst_id = ''r1'', inst_type = Resistor, inst_x = Num (-100), inst_y = Num 0,
      inst_rotation = Num 0,
      inst_pins = [(''left'', \<lparr>pin_x = Num (-130), pin_y = Num 0\<rparr>),
                   (''right'', \<lparr>pin_x = Num (-70), pin_y = Num 0\<rparr>)]\<rparr>"
  "components (two_resistors M) ''r2'' = Some
     \<lparr>inst_id = ''r2'', inst_type = Resistor, inst_x = Num 100, inst_y = Num 0,
      inst_rotation = Num 0,
      inst_pins = [(''left'', \<lparr>pin_x = Num 70, pin_y = Num 0\<rparr>),
                   (''right'', \<lparr>pin_x = Num 130, pin_y = Num 0\<rparr>)]\<rparr>"
  by (simp_all add: two_resistors_def cfgAt_def newEngine_def add_registry rotateOf_def
      absPin_unrotated js_sub_Num fl_small)

lemma library_pin_names: "set (map fst (symbolPins ty)) = documentedPinNames ty"
  by (cases ty) auto

lemma exec_registry_pins:
  assumes "\<And>cid inst. components e cid = Some inst \<Longrightarrow>
             map fst (inst_pins inst) = map fst (symbolPins (inst_type inst))"
    and "components (exec M i e) cid = Some inst"
  shows "map fst (inst_pins inst) = map fst (symbolPins (inst_type inst))"
proof (cases i)
  case (Add ty cid' config)
  show ?thesis
  proof (cases "cid = cid'")
    case True
    with Add assms(2) show ?thesis
      by (auto simp: add_registry fst_absPin)
  next
    case False
    with Add assms(2) have "components e cid = Some inst"
      by (simp add: add_registry)
    then show ?thesis
      by (rule assms(1))
  qed
next
  case (Connect fromId fromPin toId toPin)
  with assms(2) have "components e cid = Some inst"
    by (simp add: connect_registry)
  then show ?thesis
    by (rule assms(1))
next
  case Reset
  with assms(2) show ?thesis
    by (simp add: reset_def)
qed

lemma run_registry_pins:
  assumes "\<And>cid inst. components e cid = Some inst \<Longrightarrow>
             map fst (inst_pins inst) = map fst (symbolPins (inst_type inst))"
    and "components (run M prog e) cid = Some inst"
  shows "map fst (inst_pins inst) = map fst (symbolPins (inst_type inst))"
  using assms
proof (induction prog arbitrary: e cid inst)
  case Nil
  then show ?case by simp
next
  case (Cons i prog)
  have step: "\<And>cid inst. components (exec M i e) cid = Some inst \<Longrightarrow>
                map fst (inst_pins inst) = map fst (symbolPins (inst_type inst))"
    using Cons.prems(1) by (rule exec_registry_pins)
  from Cons.prems(2) have "components (run M prog (exec M i e)) cid = Some inst"
    by simp
  with step show ?case
    by (rule Cons.IH)
qed

lemma connect_unresolved:
  assumes "components e fromId = None \<or> components e toId = None
           \<or> (\<exists>c1. components e fromId = Some c1 \<and> getPin (inst_pins c1) fromPin = Absent)
           \<or> (\<exists>c2. components e toId = Some c2 \<and> getPin (inst_pins c2) toPin = Absent)"
  shows "snd (connect fromId fromPin toId toPin e) = e"
    and "fst (connect fromId fromPin toId toPin e) \<noteq> None"
  using assms by (auto simp: connect_def Let_def split: option.splits)

lemma library_entries:
  assumes "ty \<notin> {ArduinoUno, StepperMotor, DriverStepper, Antenna, Ic555}"
  shows "symbolGeometry ty \<noteq> []" and "symbolPins ty \<noteq> []"
  using assms by (cases ty; simp)+

lemma no_library_entry:
  assumes "ty \<in> {ArduinoUno, StepperMotor, DriverStepper, Antenna, Ic555}"
  shows "symbolGeometry ty = []" and "symbolPins ty = []"
  using assms by auto







lemma quarter_turn_radians:
  "js_div180 (js_mul (Num 90) (Num Math_PI)) = Num quarter_turn"
  "js_div180 (fl (90 * Math_PI)) = Num quarter_turn"
proof -
  have "fl (90 * Math_PI) = Num (4974073419394997 / 2 ^ 44)"
    unfolding Math_PI_def
    using fl_nearest [where k = 8 and m = 4974073419394997
        and x = "90 * (884279719003555 / 2 ^ 48)"]
    by simp
  moreover have "fl (4974073419394997 / 2 ^ 44 / 180) = Num quarter_turn"
    unfolding quarter_turn_def
    using fl_nearest [where k = 0 and m = 7074237752028440
        and x = "4974073419394997 / 2 ^ 44 / 180"]
    by simp
  ultimately show "js_div180 (js_mul (Num 90) (Num Math_PI)) = Num quarter_turn"
    and "js_div180 (fl (90 * Math_PI)) = Num quarter_turn"
    by simp_all
qed

lemma quarter_turn_nonzero: "quarter_turn \<noteq> 0"
  by (simp add: quarter_turn_def)

lemma small_product:
  assumes "\<bar>c\<bar> \<le> 1 / 2 ^ 53" and "\<bar>p\<bar> \<le> 32"
  shows "\<exists>r. fl (p * c) = Num r \<and> fl r = Num r \<and> \<bar>r\<bar> \<le> 1 / 2 ^ 48"
proof -
  have "\<bar>p * c\<bar> \<le> 32 * (1 / 2 ^ 53)"
    unfolding abs_mult using assms by (intro mult_mono) simp_all
  then have "\<bar>p * c\<bar> \<le> 2 powi (- 48)"
    by simp
  then have "\<exists>r. fl (p * c) = Num r \<and> \<bar>r\<bar> \<le> 2 powi (- 48)"
    by (rule fl_bound) simp_all
  then obtain r where r: "fl (p * c) = Num r" "\<bar>r\<bar> \<le> 2 powi (- 48)"
    by blast
  from r(1) have "fl r = Num r"
    by (rule fl_idem)
  with r show ?thesis
    by auto
qed

lemma quarter_turn_pin:
  assumes s: "libm_sin M quarter_turn = 1" and c: "\<bar>libm_cos M quarter_turn\<bar> \<le> 1 / 2 ^ 53"
    and p: "\<bar>p\<bar> \<le> 32" and int: "fl p = Num p"
  shows "\<exists>x. absPin M (Num 0) (Num 0) (Num 90) (key, p, 0) =
               (key, \<lparr>pin_x = Num x, pin_y = Num p\<rparr>) \<and> \<bar>x\<bar> \<le> 1 / 2 ^ 48"
proof -
  from small_product [OF c p] obtain r
    where r: "fl (p * libm_cos M quarter_turn) = Num r" "fl r = Num r" "\<bar>r\<bar> \<le> 1 / 2 ^ 48"
    by blast
  have "absPin M (Num 0) (Num 0) (Num 90) (key, p, 0) = (key, \<lparr>pin_x = Num r, pin_y = Num p\<rparr>)"
    by (simp add: absPin_def Let_def quarter_turn_radians quarter_turn_nonzero s r int
        js_sub_Num fl_zero)
  with r(3) show ?thesis
    by blast
qed

lemma example_libm_quarter_turn:
  "libm_cos example_libm quarter_turn = 4967757600021511 / 2 ^ 106"
  "libm_sin example_libm quarter_turn = 1"
  by (simp_all add: example_libm_def)

lemma example_products:
  "fl (- 30 * (4967757600021511 / 2 ^ 106)) = Num (- (4657272750020167 / 2 ^ 101))"
  "fl (30 * (4967757600021511 / 2 ^ 106)) = Num (4657272750020167 / 2 ^ 101)"
  "fl (- (4657272750020167 / 2 ^ 101)) = Num (- (4657272750020167 / 2 ^ 101))"
  "fl (4657272750020167 / 2 ^ 101) = Num (4657272750020167 / 2 ^ 101)"
proof -
  show a: "fl (- 30 * (4967757600021511 / 2 ^ 106)) = Num (- (4657272750020167 / 2 ^ 101))"
    using fl_nearest [where k = "- 49" and m = "- 4657272750020167"
        and x = "- 30 * (4967757600021511 / 2 ^ 106)"]
    by simp
  show b: "fl (30 * (4967757600021511 / 2 ^ 106)) = Num (4657272750020167 / 2 ^ 101)"
    using fl_nearest [where k = "- 49" and m = "4657272750020167"
        and x = "30 * (4967757600021511 / 2 ^ 106)"]
    by simp
  show "fl (- (4657272750020167 / 2 ^ 101)) = Num (- (4657272750020167 / 2 ^ 101))"
    using a by (rule fl_idem)
  show "fl (4657272750020167 / 2 ^ 101) = Num (4657272750020167 / 2 ^ 101)"
    using b by (rule fl_idem)
qed

lemma example_quarter_turn_pins:
  "absPin example_libm (Num 0) (Num 0) (Num 90) (key, - 30, 0) =
     (key, \<lparr>pin_x = Num (- (4657272750020167 / 2 ^ 101)), pin_y = Num (- 30)\<rparr>)"
  "absPin example_libm (Num 0) (Num 0) (Num 90) (key, 30, 0) =
     (key, \<lparr>pin_x = Num (4657272750020167 / 2 ^ 101), pin_y = Num 30\<rparr>)"
proof -
  have sub0: "js_sub (Num r) (Num 0) = fl r" for r
    by (simp add: js_sub_Num)
  have p1: "js_mul (Num (- 30)) (Num (4967757600021511 / 2 ^ 106)) = Num (- (4657272750020167 / 2 ^ 101))"
    using example_products(1) by simp
  have p2: "js_mul (Num 30) (Num (4967757600021511 / 2 ^ 106)) = Num (4657272750020167 / 2 ^ 101)"
    using example_products(2) by simp
  have z: "js_mul (Num 0) (Num r) = Num 0" for r
    by (simp add: fl_zero)
  have one: "js_mul (Num (- 30)) (Num 1) = Num (- 30)" "js_mul (Num 30) (Num 1) = Num 30"
    by (simp_all add: fl_small)
  have a0: "js_add (Num 0) (Num r) = fl r" "js_add (Num r) (Num 0) = fl r" for r
    by simp_all
  show "absPin example_libm (Num 0) (Num 0) (Num 90) (key, - 30, 0) =
     (key, \<lparr>pin_x = Num (- (4657272750020167 / 2 ^ 101)), pin_y = Num (- 30)\<rparr>)"
    by (simp only: absPin_def Let_def prod.case quarter_turn_radians Math_cos.simps Math_sin.simps
        quarter_turn_nonzero if_False example_libm_quarter_turn p1 z one sub0 a0
        example_products fl_small)
  show "absPin example_libm (Num 0) (Num 0) (Num 90) (key, 30, 0) =
     (key, \<lparr>pin_x = Num (4657272750020167 / 2 ^ 101), pin_y = Num 30\<rparr>)"
    by (simp only: absPin_def Let_def prod.case quarter_turn_radians Math_cos.simps Math_sin.simps
        quarter_turn_nonzero if_False example_libm_quarter_turn p2 z one sub0 a0
        example_products fl_small)
qed

section \<open>Claims\<close>



text \<open>
  C2 as the claim states it fails at the quarter turn: with a Math library that returns
  at \<open>Math.PI / 2\<close> the doubles \<open>6.123233995736766e-17\<close> and \<open>1\<close>, a resistor placed at the
  origin with rotation 90 gets the pins \<open>(-1.83697019872103e-15, -30)\<close> and
  \<open>(1.83697019872103e-15, 30)\<close>, not \<open>(0, -30)\<close> and \<open>(0, 30)\<close>.
\<close>

theorem quarter_turn_pins_not_exact:
  "map_option inst_pins
     (components
        (add example_libm Resistor ''r1''
           \<lparr>cfg_x = Num 0, cfg_y = Num 0, cfg_rotate = Some (Num 90), cfg_label = None\<rparr>
           (newEngine [] [])) ''r1'') =
     Some [(''left'', \<lparr>pin_x = Num (- (4657272750020167 / 2 ^ 101)), pin_y = Num (- 30)\<rparr>),
           (''right'', \<lparr>pin_x = Num (4657272750020167 / 2 ^ 101), pin_y = Num 30\<rparr>)]
   \<and> map_option inst_pins
     (components
        (add example_libm Resistor ''r1''
           \<lparr>cfg_x = Num 0, cfg_y = Num 0, cfg_rotate = Some (Num 90), cfg_label = None\<rparr>
           (newEngine [] [])) ''r1'') \<noteq>
     Some [(''left'', \<lparr>pin_x = Num 0, pin_y = Num (- 30)\<rparr>),
           (''right'', \<lparr>pin_x = Num 0, pin_y = Num 30\<rparr>)]"
  by (simp add: add_registry rotateOf_def example_quarter_turn_pins)

text \<open>
  C2, amended. For every type, id and config, \<open>add\<close> registers under the id an instance
  whose pins are the symbol library's relative offsets \<open>(px, py)\<close> moved to
  \<open>(x + (px c - py s), y + (px s + py c))\<close>, every operation in double arithmetic, where
  \<open>c = Math.cos(rad)\<close>, \<open>s = Math.sin(rad)\<close>, \<open>rad = (rotation * Math.PI) / 180\<close> and the
  rotation is 0 when the config has none. In particular a type whose local pins are
  \<open>(-30, 0)\<close> and \<open>(30, 0)\<close>, placed at the origin with rotation 90, gets pins that are
  approximately \<open>(0, -30)\<close> and \<open>(0, 30)\<close>: on every platform whose \<open>Math.sin(Math.PI / 2)\<close>
  is 1 and whose \<open>Math.cos(Math.PI / 2)\<close> is at most \<open>2\<close> to the power \<open>-53\<close> in magnitude,
  the \<open>y\<close> coordinates are exactly \<open>-30\<close> and \<open>30\<close> and the \<open>x\<close> coordinates are at most
  \<open>2\<close> to the power \<open>-48\<close> in magnitude.
\<close>

theorem add_absolute_pins:
  "map_option inst_pins (components (add M ty cid config e) cid) =
     Some (map (\<lambda>(name, px, py).
             (name,
              \<lparr>pin_x = js_add (cfg_x config)
                 (js_sub
                    (js_mul (Num px)
                       (Math_cos M (js_div180 (js_mul (rotateOf config) (Num Math_PI)))))
                    (js_mul (Num py)
                       (Math_sin M (js_div180 (js_mul (rotateOf config) (Num Math_PI)))))),
               pin_y = js_add (cfg_y config)
                 (js_add
                    (js_mul (Num px)
                       (Math_sin M (js_div180 (js_mul (rotateOf config) (Num Math_PI)))))
                    (js_mul (Num py)
                       (Math_cos M (js_div180 (js_mul (rotateOf config) (Num Math_PI))))))\<rparr>))
           (symbolPins ty))
   \<and> (symbolPins ty = [(a, - 30, 0), (b, 30, 0)]
        \<and> libm_sin M quarter_turn = 1 \<and> \<bar>libm_cos M quarter_turn\<bar> \<le> 1 / 2 ^ 53 \<longrightarrow>
        (\<exists>xa xb.
           map_option inst_pins
             (components
                (add M ty cid
                   \<lparr>cfg_x = Num 0, cfg_y = Num 0, cfg_rotate = Some (Num 90), cfg_label = lbl\<rparr> e)
                cid) =
           Some [(a, \<lparr>pin_x = Num xa, pin_y = Num (- 30)\<rparr>),
                 (b, \<lparr>pin_x = Num xb, pin_y = Num 30\<rparr>)]
           \<and> \<bar>xa\<bar> \<le> 1 / 2 ^ 48 \<and> \<bar>xb\<bar> \<le> 1 / 2 ^ 48))"
proof (intro conjI impI)
  have general: "absPin M x y rot = (\<lambda>(name, px, py).
      (name,
       \<lparr>pin_x = js_add x
          (js_sub (js_mul (Num px) (Math_cos M (js_div180 (js_mul rot (Num Math_PI)))))
                  (js_mul (Num py) (Math_sin M (js_div180 (js_mul rot (Num Math_PI)))))),
        pin_y = js_add y
          (js_add (js_mul (Num px) (Math_sin M (js_div180 (js_mul rot (Num Math_PI)))))
                  (js_mul (Num py) (Math_cos M (js_div180 (js_mul rot (Num Math_PI))))))\<rparr>))"
    for x y rot
    by (simp add: absPin_def Let_def)
  show "map_option inst_pins (components (add M ty cid config e) cid) =
     Some (map (\<lambda>(name, px, py).
             (name,
              \<lparr>pin_x = js_add (cfg_x config)
                 (js_sub
                    (js_mul (Num px)
                       (Math_cos M (js_div180 (js_mul (rotateOf config) (Num Math_PI)))))
                    (js_mul (Num py)
                       (Math_sin M (js_div180 (js_mul (rotateOf config) (Num Math_PI)))))),
               pin_y = js_add (cfg_y config)
                 (js_add
                    (js_mul (Num px)
                       (Math_sin M (js_div180 (js_mul (rotateOf config) (Num Math_PI)))))
                    (js_mul (Num py)
                       (Math_cos M (js_div180 (js_mul (rotateOf config) (Num Math_PI))))))\<rparr>))
           (symbolPins ty))"
    by (simp only: add_registry general) simp
next
  assume h: "symbolPins ty = [(a, - 30, 0), (b, 30, 0)]
        \<and> libm_sin M quarter_turn = 1 \<and> \<bar>libm_cos M quarter_turn\<bar> \<le> 1 / 2 ^ 53"
  then have pins: "symbolPins ty = [(a, - 30, 0), (b, 30, 0)]"
    and s: "libm_sin M quarter_turn = 1" and c: "\<bar>libm_cos M quarter_turn\<bar> \<le> 1 / 2 ^ 53"
    by simp_all
  from quarter_turn_pin [OF s c, of "- 30" a] obtain xa
    where xa: "absPin M (Num 0) (Num 0) (Num 90) (a, - 30, 0) =
                 (a, \<lparr>pin_x = Num xa, pin_y = Num (- 30)\<rparr>)" "\<bar>xa\<bar> \<le> 1 / 2 ^ 48"
    by (auto simp: fl_small)
  from quarter_turn_pin [OF s c, of 30 b] obtain xb
    where xb: "absPin M (Num 0) (Num 0) (Num 90) (b, 30, 0) =
                 (b, \<lparr>pin_x = Num xb, pin_y = Num 30\<rparr>)" "\<bar>xb\<bar> \<le> 1 / 2 ^ 48"
    by (auto simp: fl_small)
  have "map_option inst_pins
             (components
                (add M ty cid
                   \<lparr>cfg_x = Num 0, cfg_y = Num 0, cfg_rotate = Some (Num 90), cfg_label = lbl\<rparr> e)
                cid) =
           Some [(a, \<lparr>pin_x = Num xa, pin_y = Num (- 30)\<rparr>),
                 (b, \<lparr>pin_x = Num xb, pin_y = Num 30\<rparr>)]"
    by (simp add: add_registry rotateOf_def pins xa(1) xb(1))
  with xa(2) xb(2)
  show "\<exists>xa xb.
           map_option inst_pins
             (components
                (add M ty cid
                   \<lparr>cfg_x = Num 0, cfg_y = Num 0, cfg_rotate = Some (Num 90), cfg_label = lbl\<rparr> e)
                cid) =
           Some [(a, \<lparr>pin_x = Num xa, pin_y = Num (- 30)\<rparr>),
                 (b, \<lparr>pin_x = Num xb, pin_y = Num 30\<rparr>)]
           \<and> \<bar>xa\<bar> \<le> 1 / 2 ^ 48 \<and> \<bar>xb\<bar> \<le> 1 / 2 ^ 48"
    by blast
qed

text \<open>
  Witness for C2: the example library meets the two conditions, and the resistor at the
  origin with rotation 90 gets \<open>y = -30\<close> and \<open>y = 30\<close> and \<open>x\<close> of magnitude
  \<open>4657272750020167 / 2 ^ 101\<close>, about \<open>1.84e-15\<close>.
\<close>

theorem add_absolute_pins_witness:
  "symbolPins Resistor = [(''left'', - 30, 0), (''right'', 30, 0)]
   \<and> libm_sin example_libm quarter_turn = 1
   \<and> \<bar>libm_cos example_libm quarter_turn\<bar> \<le> 1 / 2 ^ 53
   \<and> (\<exists>xa xb.
         map_option inst_pins
           (components
              (add example_libm Resistor ''r1''
                 \<lparr>cfg_x = Num 0, cfg_y = Num 0, cfg_rotate = Some (Num 90), cfg_label = None\<rparr>
                 (newEngine [] [])) ''r1'') =
         Some [(''left'', \<lparr>pin_x = Num xa, pin_y = Num (- 30)\<rparr>),
               (''right'', \<lparr>pin_x = Num xb, pin_y = Num 30\<rparr>)]
         \<and> \<bar>xa\<bar> \<le> 1 / 2 ^ 48 \<and> \<bar>xb\<bar> \<le> 1 / 2 ^ 48)"
proof -
  have h: "symbolPins Resistor = [(''left'', - 30, 0), (''right'', 30, 0)]
   \<and> libm_sin example_libm quarter_turn = 1
   \<and> \<bar>libm_cos example_libm quarter_turn\<bar> \<le> 1 / 2 ^ 53"
    by (simp add: example_libm_quarter_turn)
  from add_absolute_pins [where M = example_libm and ty = Resistor and cid = "''r1''"
      and a = "''left''" and b = "''right''" and lbl = None and e = "newEngine [] []",
      THEN conjunct2, rule_format, OF h] h
  show ?thesis
    by simp
qed

text \<open>
  C3. After \<open>add\<close> the registered instance's pin-name set is the documented set of its
  type (the table of section 4.1), and in every state reached from a fresh engine, on
  any platform, by any sequence of \<open>add\<close>, \<open>connect\<close> and \<open>reset\<close> every registered
  instance has exactly the pin names, in the library's order, that the symbol library
  defines for its type.
\<close>

theorem pin_names_match_library:
  "map_option pinNames (components (add M ty cid config e) cid) = Some (documentedPinNames ty)
   \<and> (components (run M prog (newEngine host rootChildren)) cid = Some inst \<longrightarrow>
        map fst (inst_pins inst) = map fst (symbolPins (inst_type inst))
        \<and> pinNames inst = documentedPinNames (inst_type inst))"
proof (intro conjI impI)
  show "map_option pinNames (components (add M ty cid config e) cid) = Some (documentedPinNames ty)"
    by (simp add: add_registry pinNames_def fst_absPin library_pin_names del: set_map)
next
  assume reg: "components (run M prog (newEngine host rootChildren)) cid = Some inst"
  have "\<And>cid inst. components (newEngine host rootChildren) cid = Some inst \<Longrightarrow>
          map fst (inst_pins inst) = map fst (symbolPins (inst_type inst))"
    by (simp add: newEngine_def)
  then show names: "map fst (inst_pins inst) = map fst (symbolPins (inst_type inst))"
    using reg by (rule run_registry_pins)
  show "pinNames inst = documentedPinNames (inst_type inst)"
    unfolding pinNames_def names by (rule library_pin_names)
qed

text \<open>
  Witness for C3: a transistor re-added under the id of a resistor, a wire and a ground;
  the instance under \<open>q1\<close> has the transistor's three pins.
\<close>

theorem pin_names_match_library_witness:
  "components
     (run example_libm [Add Resistor ''q1'' (cfgAt 0 0), Add Gnd ''g1'' (cfgAt 0 100),
           Connect ''q1'' ''right'' ''g1'' ''top'', Add TransistorNpn ''q1'' (cfgAt 50 0)]
        (newEngine [] [])) ''q1'' =
     Some \<lparr>inst_id = ''q1'', inst_type = TransistorNpn, inst_x = Num 50, inst_y = Num 0,
           inst_rotation = Num 0,
           inst_pins = [(''base'', \<lparr>pin_x = Num 20, pin_y = Num 0\<rparr>),
                        (''collector'', \<lparr>pin_x = Num 65, pin_y = Num (- 40)\<rparr>),
                        (''emitter'', \<lparr>pin_x = Num 65, pin_y = Num 40\<rparr>)]\<rparr>
   \<and> pinNames \<lparr>inst_id = ''q1'', inst_type = TransistorNpn, inst_x = Num 50, inst_y = Num 0,
           inst_rotation = Num 0,
           inst_pins = [(''base'', \<lparr>pin_x = Num 20, pin_y = Num 0\<rparr>),
                        (''collector'', \<lparr>pin_x = Num 65, pin_y = Num (- 40)\<rparr>),
                        (''emitter'', \<lparr>pin_x = Num 65, pin_y = Num 40\<rparr>)]\<rparr>
       = {''base'', ''collector'', ''emitter''}"
proof -
  let ?is = "[Add Resistor ''q1'' (cfgAt 0 0), Add Gnd ''g1'' (cfgAt 0 100),
           Connect ''q1'' ''right'' ''g1'' ''top'', Add TransistorNpn ''q1'' (cfgAt 50 0)]"
  let ?inst = "\<lparr>inst_id = ''q1'', inst_type = TransistorNpn, inst_x = Num 50, inst_y = Num 0,
           inst_rotation = Num 0,
           inst_pins = [(''base'', \<lparr>pin_x = Num 20, pin_y = Num 0\<rparr>),
                        (''collector'', \<lparr>pin_x = Num 65, pin_y = Num (- 40)\<rparr>),
                        (''emitter'', \<lparr>pin_x = Num 65, pin_y = Num 40\<rparr>)]\<rparr>"
  have reg: "components (run example_libm ?is (newEngine [] [])) ''q1'' = Some ?inst"
    by (simp add: cfgAt_def add_registry rotateOf_def absPin_unrotated js_sub_Num fl_small)
  from pin_names_match_library [where M = example_libm and prog = ?is and host = "[]"
      and rootChildren = "[]" and cid = "''q1''" and inst = ?inst, THEN conjunct2, rule_format, OF reg] reg
  show ?thesis
    by simp
qed

text \<open>
  C4. When both ids are registered and both pin names are pins of the resolved instances,
  \<open>connect\<close> adds exactly one path and exactly two circular markers: the path becomes
  the first child of the layer (behind every primitive already there), the two markers
  become its last children, in the order \<open>p1\<close>, \<open>p2\<close>, and no notice is printed.
\<close>

theorem connect_draw_order:
  assumes "components e fromId = Some c1" and "components e toId = Some c2"
    and "map_of (inst_pins c1) fromPin = Some p1"
    and "map_of (inst_pins c2) toPin = Some p2"
  shows "connect fromId fromPin toId toPin e =
           (None, e\<lparr>activeLayer :=
              wirePath (route (OwnPin p1) (OwnPin p2)) # activeLayer e
                @ [solderDot (OwnPin p1), solderDot (OwnPin p2)]\<rparr>)
         \<and> tagName (wirePath (route (OwnPin p1) (OwnPin p2))) = ''path''
         \<and> tagName (solderDot (OwnPin p1)) = ''circle''
         \<and> tagName (solderDot (OwnPin p2)) = ''circle''
         \<and> countTag ''path'' (activeLayer (snd (connect fromId fromPin toId toPin e))) =
               countTag ''path'' (activeLayer e) + 1
         \<and> countTag ''circle'' (activeLayer (snd (connect fromId fromPin toId toPin e))) =
               countTag ''circle'' (activeLayer e) + 2
         \<and> length (activeLayer (snd (connect fromId fromPin toId toPin e))) =
               length (activeLayer e) + 3"
proof -
  have g1: "getPin (inst_pins c1) fromPin = OwnPin p1"
    using assms(3) by (simp add: getPin_def)
  have g2: "getPin (inst_pins c2) toPin = OwnPin p2"
    using assms(4) by (simp add: getPin_def)
  have c: "connect fromId fromPin toId toPin e =
          (None, e\<lparr>activeLayer := wirePath (route (OwnPin p1) (OwnPin p2)) # activeLayer e
             @ [solderDot (OwnPin p1), solderDot (OwnPin p2)]\<rparr>)"
    by (rule connect_resolved [OF assms(1) assms(2) g1 g2]) simp_all
  have t: "tagName (wirePath d) = ''path''" "tagName (solderDot p) = ''circle''" for d p
    by (simp_all add: wirePath_def solderDot_def createEl_def)
  show ?thesis
    unfolding c by (simp add: t countTag_def)
qed

text \<open>
  Witness for C4: the wire of the end-to-end example lies behind the two resistor
  groups, its two markers in front of them.
\<close>

theorem connect_draw_order_witness:
  "components (two_resistors example_libm) ''r1'' = Some
     \<lparr>inst_id = ''r1'', inst_type = Resistor, inst_x = Num (-100), inst_y = Num 0,
      inst_rotation = Num 0,
      inst_pins = [(''left'', \<lparr>pin_x = Num (-130), pin_y = Num 0\<rparr>),
                   (''right'', \<lparr>pin_x = Num (-70), pin_y = Num 0\<rparr>)]\<rparr>
   \<and> components (two_resistors example_libm) ''r2'' = Some
     \<lparr>inst_id = ''r2'', inst_type = Resistor, inst_x = Num 100, inst_y = Num 0,
      inst_rotation = Num 0,
      inst_pins = [(''left'', \<lparr>pin_x = Num 70, pin_y = Num 0\<rparr>),
                   (''right'', \<lparr>pin_x = Num 130, pin_y = Num 0\<rparr>)]\<rparr>
   \<and> map (\<lambda>n. tagName n)
         (activeLayer (snd (connect ''r1'' ''right'' ''r2'' ''left'' (two_resistors example_libm)))) =
       [''path'', ''g'', ''g'', ''circle'', ''circle'']"
proof -
  let ?a = "\<lparr>inst_id = ''r1'', inst_type = Resistor, inst_x = Num (-100), inst_y = Num 0,
      inst_rotation = Num 0,
      inst_pins = [(''left'', \<lparr>pin_x = Num (-130), pin_y = Num 0\<rparr>),
                   (''right'', \<lparr>pin_x = Num (-70), pin_y = Num 0\<rparr>)]\<rparr>"
  let ?b = "\<lparr>inst_id = ''r2'', inst_type = Resistor, inst_x = Num 100, inst_y = Num 0,
      inst_rotation = Num 0,
      inst_pins = [(''left'', \<lparr>pin_x = Num 70, pin_y = Num 0\<rparr>),
                   (''right'', \<lparr>pin_x = Num 130, pin_y = Num 0\<rparr>)]\<rparr>"
  have a: "components (two_resistors example_libm) ''r1'' = Some ?a"
    by (rule two_resistors_registry)
  have b: "components (two_resistors example_libm) ''r2'' = Some ?b"
    by (rule two_resistors_registry)
  have pa: "map_of (inst_pins ?a) ''right'' = Some \<lparr>pin_x = Num (-70), pin_y = Num 0\<rparr>"
    by simp
  have pb: "map_of (inst_pins ?b) ''left'' = Some \<lparr>pin_x = Num 70, pin_y = Num 0\<rparr>"
    by simp
  have l: "map (\<lambda>n. tagName n) (activeLayer (two_resistors example_libm)) = [''g'', ''g'']"
    by (simp add: two_resistors_def cfgAt_def newEngine_def add_layer labelOf_def)
  from connect_draw_order [OF a b pa pb, THEN conjunct1] a b l show ?thesis
    by (simp add: wirePath_def solderDot_def createEl_def)
qed

text \<open>
  C5, evaluated where the code and the claim part. The pin name \<open>constructor\<close> is not a
  pin of the resistor \<open>r1\<close>, yet the read \<open>c1.pins['constructor']\<close> finds the member that the
  pin object inherits, the guard \<open>!p1 || !p2\<close> lets it pass, no notice is printed, and one
  path and two markers with undefined coordinates are added to the layer. This holds on
  every platform.
\<close>

theorem connect_inherited_pin_name_draws:
  "map_of (inst_pins (the (components (two_resistors M) ''r1''))) ''constructor'' = None
   \<and> connect ''r1'' ''constructor'' ''r2'' ''left'' (two_resistors M) =
       (None, (two_resistors M)\<lparr>activeLayer :=
          wirePath [MoveTo Undefined Undefined, LineTo Undefined NaN,
                    LineTo (Num 70) NaN, LineTo (Num 70) (Num 0)]
          # activeLayer (two_resistors M)
          @ [solderDot Inherited, solderDot (OwnPin \<lparr>pin_x = Num 70, pin_y = Num 0\<rparr>)]\<rparr>)
   \<and> length (activeLayer (snd (connect ''r1'' ''constructor'' ''r2'' ''left'' (two_resistors M)))) =
       length (activeLayer (two_resistors M)) + 3"
proof -
  have g1: "getPin (inst_pins (the (components (two_resistors M) ''r1''))) ''constructor'' = Inherited"
    by (simp add: two_resistors_registry getPin_def object_prototype_keys_def)
  have g2: "getPin (inst_pins (the (components (two_resistors M) ''r2''))) ''left'' =
              OwnPin \<lparr>pin_x = Num 70, pin_y = Num 0\<rparr>"
    by (simp add: two_resistors_registry getPin_def)
  have c: "connect ''r1'' ''constructor'' ''r2'' ''left'' (two_resistors M) =
       (None, (two_resistors M)\<lparr>activeLayer :=
          wirePath (route Inherited (OwnPin \<lparr>pin_x = Num 70, pin_y = Num 0\<rparr>))
          # activeLayer (two_resistors M)
          @ [solderDot Inherited, solderDot (OwnPin \<lparr>pin_x = Num 70, pin_y = Num 0\<rparr>)]\<rparr>)"
    using g1 g2
    by (intro connect_resolved [where ?c1.0 = "the (components (two_resistors M) ''r1'')"
          and ?c2.0 = "the (components (two_resistors M) ''r2'')"])
      (simp_all add: two_resistors_registry)
  have r: "route Inherited (OwnPin \<lparr>pin_x = Num 70, pin_y = Num 0\<rparr>) =
             [MoveTo Undefined Undefined, LineTo Undefined NaN,
              LineTo (Num 70) NaN, LineTo (Num 70) (Num 0)]"
    by (simp add: route_def midX_def midY_def deltaX_def deltaY_def js_sub_def)
  show ?thesis
    unfolding c r by (simp add: two_resistors_registry)
qed

text \<open>
  C6 as the claim states it fails: after the second \<open>add\<close> of \<open>r1\<close> the group drawn by the
  first \<open>add\<close>, at \<open>translate(0,0)\<close>, is still a child of the layer.
\<close>

theorem readd_old_geometry_remains:
  "fst (drawSymbol Resistor (symbolGroup ''r1'' (Num 0) (Num 0) (Num 0)))
     \<in> set (activeLayer (readd_example example_libm))"
  by (simp add: readd_example_def cfgAt_def newEngine_def add_layer labelOf_def rotateOf_def
      drawSymbol_def symbolGroup_def createEl_def appendChildren_Element)

text \<open>
  C6, amended. For an id already in the registry, \<open>add\<close> under the same id replaces the
  registered instance by one that depends on the new type and config only; the layer
  keeps every primitive it had, the earlier placement's group among them, and gains as
  its last child the new placement's group: the \<open>g\<close> element with the new transform and
  id, holding the symbol's primitives and then the label text if the label is not empty.
  The old group is never removed or changed.
\<close>

theorem readd_replaces_registry_entry:
  assumes "components e cid = Some old"
  shows "components (add M ty cid config e) cid = Some
           \<lparr>inst_id = cid, inst_type = ty, inst_x = cfg_x config, inst_y = cfg_y config,
            inst_rotation = rotateOf config,
            inst_pins = map (absPin M (cfg_x config) (cfg_y config) (rotateOf config))
                          (symbolPins ty)\<rparr>
         \<and> activeLayer (add M ty cid config e) =
             activeLayer e @
               [Element ''g''
                  [(''class'', Str ''symbol cursor-pointer hover:opacity-80 transition-opacity''),
                   (''transform'',
                    TranslateRotate (cfg_x config) (cfg_y config) (rotateOf config)),
                   (''data-id'', Str cid)]
                  (symbolGeometry ty @
                   (if labelOf config = [] then []
                    else [Element ''text''
                            [(''x'', Val (Num 0)), (''y'', Val (Num (- 45))),
                             (''class'',
                              Str ''fill-slate-600 font-sans text-xs font-bold text-anchor-middle text-center''),
                             (''transform'', RotateBy (js_neg (rotateOf config))),
                             (''text-anchor'', Str ''middle'')]
                            [TextNode (labelOf config)]]))]"
  by (simp add: add_registry add_layer)

text \<open>
  Witness for C6: \<open>r1\<close> placed at \<open>(0, 0)\<close> and placed again at \<open>(100, 0)\<close>. The registry
  holds the second placement only; the layer holds the group of the first and then the
  group of the second.
\<close>

theorem readd_replaces_registry_entry_witness:
  "components (add example_libm Resistor ''r1'' (cfgAt 0 0) (newEngine [] [])) ''r1'' = Some
     \<lparr>inst_id = ''r1'', inst_type = Resistor, inst_x = Num 0, inst_y = Num 0,
      inst_rotation = Num 0,
      inst_pins = [(''left'', \<lparr>pin_x = Num (-30), pin_y = Num 0\<rparr>),
                   (''right'', \<lparr>pin_x = Num 30, pin_y = Num 0\<rparr>)]\<rparr>
   \<and> components (readd_example example_libm) ''r1'' = Some
     \<lparr>inst_id = ''r1'', inst_type = Resistor, inst_x = Num 100, inst_y = Num 0,
      inst_rotation = Num 0,
      inst_pins = [(''left'', \<lparr>pin_x = Num 70, pin_y = Num 0\<rparr>),
                   (''right'', \<lparr>pin_x = Num 130, pin_y = Num 0\<rparr>)]\<rparr>
   \<and> activeLayer (readd_example example_libm) =
       [fst (drawSymbol Resistor (symbolGroup ''r1'' (Num 0) (Num 0) (Num 0))),
        fst (drawSymbol Resistor (symbolGroup ''r1'' (Num 100) (Num 0) (Num 0)))]"
proof -
  have old: "components (add example_libm Resistor ''r1'' (cfgAt 0 0) (newEngine [] [])) ''r1'' = Some
     \<lparr>inst_id = ''r1'', inst_type = Resistor, inst_x = Num 0, inst_y = Num 0,
      inst_rotation = Num 0,
      inst_pins = [(''left'', \<lparr>pin_x = Num (-30), pin_y = Num 0\<rparr>),
                   (''right'', \<lparr>pin_x = Num 30, pin_y = Num 0\<rparr>)]\<rparr>"
    by (simp add: cfgAt_def add_registry rotateOf_def absPin_unrotated js_sub_Num fl_small)
  have first: "activeLayer (add example_libm Resistor ''r1'' (cfgAt 0 0) (newEngine [] [])) =
      [fst (drawSymbol Resistor (symbolGroup ''r1'' (Num 0) (Num 0) (Num 0)))]"
    by (simp add: cfgAt_def newEngine_def add_layer labelOf_def rotateOf_def drawSymbol_def
        symbolGroup_def createEl_def appendChildren_Element)
  from readd_replaces_registry_entry [OF old, of example_libm Resistor "cfgAt 100 0"] old first
  show ?thesis
    by (simp add: readd_example_def cfgAt_def rotateOf_def labelOf_def absPin_unrotated
        js_sub_Num fl_small drawSymbol_def symbolGroup_def createEl_def appendChildren_Element)
qed

text \<open>
  C7. After \<open>reset\<close>, from any state, the registry has no instance and the active layer
  has no primitive, while the content of the \<open>svg\<close> element outside the engine's layer
  is what it was.
\<close>

theorem reset_clears_engine_content:
  "components (reset e) = Map.empty \<and> activeLayer (reset e) = [] \<and> svg_host (reset e) = svg_host e"
  by (simp add: reset_def removeChildren_empty)

text \<open>
  C8 as the claim states it fails: in the end-to-end example the pins \<open>r1.right\<close> and
  \<open>r2.left\<close> are at \<open>x = -70\<close> and \<open>x = 70\<close>, so \<open>deltaX\<close> is 140 and not 170.
\<close>

theorem end_to_end_deltaX_not_170:
  "deltaX (getPin (inst_pins (the (components (two_resistors example_libm) ''r1''))) ''right'')
          (getPin (inst_pins (the (components (two_resistors example_libm) ''r2''))) ''left'')
     \<noteq> Num 170"
  by (simp add: two_resistors_registry getPin_def deltaX_def js_sub_Num fl_small)

text \<open>
  C8, amended. From the empty state, on any platform, the two placements and the
  connection of the example give the pins \<open>(-70, 0)\<close> and \<open>(70, 0)\<close>,
  \<open>deltaX = 140 > deltaY = 0\<close>, the horizontal-priority branch, and a path whose four
  points all lie on \<open>y = 0\<close> between \<open>(-70, 0)\<close> and \<open>(70, 0)\<close>.
\<close>

theorem end_to_end_horizontal_wire:
  "getPin (inst_pins (the (components (two_resistors M) ''r1''))) ''right'' =
     OwnPin \<lparr>pin_x = Num (-70), pin_y = Num 0\<rparr>
   \<and> getPin (inst_pins (the (components (two_resistors M) ''r2''))) ''left'' =
     OwnPin \<lparr>pin_x = Num 70, pin_y = Num 0\<rparr>
   \<and> deltaX (OwnPin \<lparr>pin_x = Num (-70), pin_y = Num 0\<rparr>) (OwnPin \<lparr>pin_x = Num 70, pin_y = Num 0\<rparr>)
       = Num 140
   \<and> deltaY (OwnPin \<lparr>pin_x = Num (-70), pin_y = Num 0\<rparr>) (OwnPin \<lparr>pin_x = Num 70, pin_y = Num 0\<rparr>)
       = Num 0
   \<and> js_gt (Num 140) (Num 0)
   \<and> hd (activeLayer
          (run M [Add Resistor ''r1'' (cfgAt (-100) 0), Add Resistor ''r2'' (cfgAt 100 0),
                  Connect ''r1'' ''right'' ''r2'' ''left''] (newEngine [] []))) =
       wirePath [MoveTo (Num (-70)) (Num 0), LineTo (Num 0) (Num 0),
                 LineTo (Num 0) (Num 0), LineTo (Num 70) (Num 0)]"
proof -
  have g1: "getPin (inst_pins (the (components (two_resistors M) ''r1''))) ''right'' =
              OwnPin \<lparr>pin_x = Num (-70), pin_y = Num 0\<rparr>"
    by (simp add: two_resistors_registry getPin_def)
  have g2: "getPin (inst_pins (the (components (two_resistors M) ''r2''))) ''left'' =
              OwnPin \<lparr>pin_x = Num 70, pin_y = Num 0\<rparr>"
    by (simp add: two_resistors_registry getPin_def)
  have c: "connect ''r1'' ''right'' ''r2'' ''left'' (two_resistors M) =
       (None, (two_resistors M)\<lparr>activeLayer :=
          wirePath (route (OwnPin \<lparr>pin_x = Num (-70), pin_y = Num 0\<rparr>)
                          (OwnPin \<lparr>pin_x = Num 70, pin_y = Num 0\<rparr>))
          # activeLayer (two_resistors M)
          @ [solderDot (OwnPin \<lparr>pin_x = Num (-70), pin_y = Num 0\<rparr>),
             solderDot (OwnPin \<lparr>pin_x = Num 70, pin_y = Num 0\<rparr>)]\<rparr>)"
    using g1 g2
    by (intro connect_resolved [where ?c1.0 = "the (components (two_resistors M) ''r1'')"
          and ?c2.0 = "the (components (two_resistors M) ''r2'')"])
      (simp_all add: two_resistors_registry)
  have r: "run M [Add Resistor ''r1'' (cfgAt (-100) 0), Add Resistor ''r2'' (cfgAt 100 0),
                  Connect ''r1'' ''right'' ''r2'' ''left''] (newEngine [] []) =
           snd (connect ''r1'' ''right'' ''r2'' ''left'' (two_resistors M))"
    by (simp add: two_resistors_def)
  show ?thesis
    unfolding r c by (simp add: g1 g2 deltaX_def deltaY_def route_own js_sub_Num fl_small)
qed

text \<open>
  C9. For each of the five types the \<open>switch\<close> of \<open>drawSymbol\<close> leaves to its \<open>default\<close>
  branch, \<open>drawSymbol\<close> appends nothing to the group and returns no pin; \<open>add\<close>, which has
  no failing branch, registers the instance with an empty pin list, and the group it
  appends to the layer holds the label text if a label was given and nothing else.
\<close>

theorem add_without_library_entry:
  assumes "ty \<in> {ArduinoUno, StepperMotor, DriverStepper, Antenna, Ic555}"
  shows "drawSymbol ty g = (g, [])
         \<and> map_option inst_pins (components (add M ty cid config e) cid) = Some []
         \<and> length (activeLayer (add M ty cid config e)) = length (activeLayer e) + 1
         \<and> children (last (activeLayer (add M ty cid config e))) =
             (case cfg_label config of
                None \<Rightarrow> []
              | Some l \<Rightarrow> if l = [] then [] else [labelText l (rotateOf config)])"
proof -
  have lib: "symbolGeometry ty = []" "symbolPins ty = []"
    using assms by (rule no_library_entry)+
  show ?thesis
    by (simp add: lib drawSymbol_def add_def symbolGroup_def createEl_def Let_def labelOf_def
        split: option.splits)
qed

theorem add_without_library_entry_witness:
  "ArduinoUno \<in> {ArduinoUno, StepperMotor, DriverStepper, Antenna, Ic555}
   \<and> map_option inst_pins
        (components
           (add example_libm ArduinoUno ''u1''
              \<lparr>cfg_x = Num 40, cfg_y = Num 20, cfg_rotate = Some (Num 90), cfg_label = Some ''UNO''\<rparr>
              (newEngine [] [])) ''u1'') = Some []
   \<and> children
        (last (activeLayer
           (add example_libm ArduinoUno ''u1''
              \<lparr>cfg_x = Num 40, cfg_y = Num 20, cfg_rotate = Some (Num 90), cfg_label = Some ''UNO''\<rparr>
              (newEngine [] [])))) = [labelText ''UNO'' (Num 90)]"
proof -
  have m: "ArduinoUno \<in> {ArduinoUno, StepperMotor, DriverStepper, Antenna, Ic555}"
    by simp
  from add_without_library_entry [OF m, of _ example_libm "''u1''"
      "\<lparr>cfg_x = Num 40, cfg_y = Num 20, cfg_rotate = Some (Num 90), cfg_label = Some ''UNO''\<rparr>"
      "newEngine [] []"]
  show ?thesis
    by (simp add: rotateOf_def)
qed

text \<open>
  C10. Whatever its arguments, \<open>connect\<close> returns an engine with the registry it was
  given: the same ids with the same instances. The content of the \<open>svg\<close> element outside
  the layer is untouched as well, so only the layer can differ.
\<close>

theorem connect_keeps_registry:
  "components (snd (connect fromId fromPin toId toPin e)) = components e
   \<and> svg_host (snd (connect fromId fromPin toId toPin e)) = svg_host e"
  by (simp add: connect_registry connect_host)

end
